theory Spec2Isabelle
  imports Complex_Main "HOL-Library.List_Lexorder" "HOL-Library.Char_ord"
begin

section \<open>Conditional WGAN-GP for tabular data: a model of \<^verbatim>\<open>wgan.py\<close>\<close>

text \<open>
  The module trains a conditional Wasserstein GAN on mixed continuous and categorical
  data. The numeric kernels of the tensor library are modelled over the reals: a tensor
  row is a \<open>real list\<close>, a batch is a list of rows, and every operation acts
  elementwise as the library's does. Rounding is therefore not part of the model; the
  statements below are about the arithmetic the code asks for. Python exceptions are
  values of the type \<open>error\<close>, and every function of the source that can raise
  returns a sum \<open>error + 'a\<close>.
\<close>

datatype error =
    ValueError string
  | RuntimeError string
  | ZeroDivisionError
  | NameError string
  | TypeError
  | IndexError
  | FileNotFoundError
  | KeyError string

subsection \<open>Training settings (\<^verbatim>\<open>Specifications.settings\<close>)\<close>

text \<open>
  The keyword arguments of \<^verbatim>\<open>Specifications.__init__\<close>, which become the dictionary
  \<^verbatim>\<open>settings\<close>. The optimizer is a class of the tensor library, here a value of a
  type \<open>'o\<close>. Two arguments have a string sentinel as default:
  \<^verbatim>\<open>generator_d_noise = "generator_d_output"\<close> and
  \<^verbatim>\<open>generator_optimizer = "optimizer"\<close>.
\<close>

datatype noise_dim = GeneratorDOutput | NoiseDim int

record 'o settings =
  optimizer :: 'o
  critic_d_hidden :: "int list"
  critic_dropout :: real
  critic_steps :: int
  critic_lr :: real
  critic_gp_factor :: real
  generator_d_hidden :: "int list"
  generator_dropout :: real
  generator_lr :: real
  generator_d_noise :: noise_dim
  generator_optimizer :: "'o option"
  max_epochs :: int
  batch_size :: int
  test_set_size :: int
  load_checkpoint :: "string option"
  save_checkpoint :: "string option"
  save_every :: int
  print_every :: int
  device :: string

text \<open>The defaults of the signature; the default device depends on the machine.\<close>

definition default_settings :: "'o \<Rightarrow> string \<Rightarrow> 'o settings" where
  "default_settings adam dev =
     \<lparr>optimizer = adam,
      critic_d_hidden = [128, 128, 128],
      critic_dropout = 0,
      critic_steps = 15,
      critic_lr = 1 / 10000,
      critic_gp_factor = 5,
      generator_d_hidden = [128, 128, 128],
      generator_dropout = 1 / 10,
      generator_lr = 1 / 10000,
      generator_d_noise = GeneratorDOutput,
      generator_optimizer = None,
      max_epochs = 1000,
      batch_size = 32,
      test_set_size = 16,
      load_checkpoint = None,
      save_checkpoint = None,
      save_every = 100,
      print_every = 200,
      device = dev\<rparr>"

subsection \<open>The training loop over mini-batches (\<^verbatim>\<open>train\<close>, inner loop)\<close>

text \<open>
  One pass of the body of \<^verbatim>\<open>for x, context in train_batches\<close>. The body decides
  \<^verbatim>\<open>generator_update = step % s["critic_steps"] == 0\<close>, runs a critic update
  (\<^verbatim>\<open>opt_critic.step()\<close>, \<^verbatim>\<open>n_batches += 1\<close>) or a generator update
  (\<^verbatim>\<open>opt_generator.step()\<close>), and ends with \<^verbatim>\<open>step += 1\<close>. The field
  \<open>updates\<close> records, in order, which optimizer stepped at which value of the counter.
  Python's \<^verbatim>\<open>%\<close> on integers raises on a zero divisor and otherwise takes the sign
  of the divisor, as \<open>mod\<close> on \<open>int\<close> does.
\<close>

datatype step_kind = CriticStep | GeneratorStep

record loop_state =
  step :: int
  n_batches :: int
  updates :: "(int \<times> step_kind) list"







subsection \<open>Tensor helpers\<close>

text \<open>
  \<^verbatim>\<open>t.split(sizes, -1)\<close> cuts the last dimension into consecutive pieces of the given
  sizes and raises unless the sizes add up to the width.
\<close>

fun split_sizes :: "nat list \<Rightarrow> 'a list \<Rightarrow> 'a list list" where
  "split_sizes [] xs = []"
| "split_sizes (d # ds) xs = take d xs # split_sizes ds (drop d xs)"

definition tensor_split :: "nat list \<Rightarrow> 'a list \<Rightarrow> error + 'a list list" where
  "tensor_split sizes xs =
     (if sum_list sizes = length xs then Inr (split_sizes sizes xs)
      else Inl (RuntimeError ''split_with_sizes''))"

text \<open>\<^verbatim>\<open>F.softmax(x, -1)\<close> on one row.\<close>

definition softmax :: "real list \<Rightarrow> real list" where
  "softmax xs = map (\<lambda>x. exp x / sum_list (map exp xs)) xs"

definition elementwise_max :: "real list \<Rightarrow> real list \<Rightarrow> real list" where
  "elementwise_max xs ys = map2 max xs ys"

definition elementwise_min :: "real list \<Rightarrow> real list \<Rightarrow> real list" where
  "elementwise_min xs ys = map2 min xs ys"

text \<open>
  An operation that works on every row of a batch on its own; the first row that raises
  ends it.
\<close>

fun map_rows :: "('a \<Rightarrow> error + 'b) \<Rightarrow> 'a list \<Rightarrow> error + 'b list" where
  "map_rows f [] = Inr []"
| "map_rows f (x # xs) =
     (case f x of
        Inl e \<Rightarrow> Inl e
      | Inr y \<Rightarrow> (case map_rows f xs of Inl e \<Rightarrow> Inl e | Inr ys \<Rightarrow> Inr (y # ys)))"

subsection \<open>The generator's output transform (\<^verbatim>\<open>Generator._transform\<close>)\<close>

text \<open>
  The generator keeps the bounds tensor (two rows, lower and upper, one column per
  continuous variable; here a list of columns \<open>(lower, upper)\<close>) and the widths of
  the categorical blocks. \<^verbatim>\<open>d_cont\<close> is the bounds tensor's width and \<^verbatim>\<open>d_cat\<close>
  the sum of the block widths, as in \<^verbatim>\<open>Generator.__init__\<close>.
\<close>

record generator =
  cont_bounds :: "(real \<times> real) list"
  cat_dims :: "nat list"

definition d_cont :: "generator \<Rightarrow> nat" where
  "d_cont g = length (cont_bounds g)"

definition d_cat :: "generator \<Rightarrow> nat" where
  "d_cat g = sum_list (cat_dims g)"

text \<open>
  \<^verbatim>\<open>_transform\<close> on one row of \<^verbatim>\<open>hidden\<close>: split into the continuous and the
  categorical slice; if the continuous slice is not empty take the elementwise maximum
  with the lower bounds and then the elementwise minimum with the upper bounds; if the
  categorical slice is not empty split it by \<^verbatim>\<open>cat_dims\<close> and softmax each block;
  concatenate.
\<close>

definition Generator_transform_row :: "generator \<Rightarrow> real list \<Rightarrow> error + real list" where
  "Generator_transform_row g hidden =
     (case tensor_split [d_cont g, d_cat g] hidden of
        Inl e \<Rightarrow> Inl e
      | Inr parts \<Rightarrow>
          let continuous = parts ! 0;
              categorical = parts ! 1;
              continuous =
                (if length continuous > 0
                 then elementwise_min
                        (elementwise_max continuous (map fst (cont_bounds g)))
                        (map snd (cont_bounds g))
                 else continuous)
          in (if length categorical > 0
              then (case tensor_split (cat_dims g) categorical of
                      Inl e \<Rightarrow> Inl e
                    | Inr blocks \<Rightarrow> Inr (continuous @ concat (map softmax blocks)))
              else Inr (continuous @ categorical)))"

definition Generator_transform :: "generator \<Rightarrow> real list list \<Rightarrow> error + real list list" where
  "Generator_transform g hidden = map_rows (Generator_transform_row g) hidden"

definition clamp_row :: "generator \<Rightarrow> real list \<Rightarrow> real list" where
  "clamp_row g xs =
     elementwise_min (elementwise_max xs (map fst (cont_bounds g))) (map snd (cont_bounds g))"

subsection \<open>The critic's gradient penalty (\<^verbatim>\<open>Critic.gradient_penalty\<close>)\<close>

text \<open>
  The two random or external ingredients are inputs of the model: \<open>alpha\<close>, the
  per-example weights \<^verbatim>\<open>torch.rand(x.size(0))\<close>, and \<open>critic_grad\<close>, which gives for
  one example the gradient of the critic's score in its first argument at
  \<open>(interpolated, context)\<close> (the rows of a batch do not interact in the critic, so
  \<^verbatim>\<open>autograd.grad\<close> with a vector of ones returns exactly these rows). The mean of
  an empty tensor is not a number: \<open>None\<close>.
\<close>

definition relu :: "real \<Rightarrow> real" where
  "relu v = max v 0"

definition l2_norm :: "real list \<Rightarrow> real" where
  "l2_norm g = sqrt (sum_list (map (\<lambda>v. v ^ 2) g))"

definition tensor_mean :: "real list \<Rightarrow> real option" where
  "tensor_mean xs = (if xs = [] then None else Some (sum_list xs / real (length xs)))"

text \<open>\<^verbatim>\<open>x * alpha + x_hat * (1 - alpha)\<close> on one example.\<close>

definition interpolate_row :: "real \<Rightarrow> real list \<Rightarrow> real list \<Rightarrow> real list" where
  "interpolate_row a xr xh = map2 (\<lambda>u v. u * a + v * (1 - a)) xr xh"

definition interpolated_batch :: "real list \<Rightarrow> real list list \<Rightarrow> real list list \<Rightarrow> real list list" where
  "interpolated_batch alpha x x_hat =
     map (\<lambda>(a, xr, xh). interpolate_row a xr xh) (zip alpha (zip x x_hat))"

definition interpolated_gradients ::
  "(real list \<Rightarrow> real list \<Rightarrow> real list) \<Rightarrow> real list \<Rightarrow> real list list \<Rightarrow> real list list \<Rightarrow>
   real list list \<Rightarrow> real list list" where
  "interpolated_gradients critic_grad alpha x x_hat context =
     map2 critic_grad (interpolated_batch alpha x x_hat) context"

definition gradient_penalty ::
  "(real list \<Rightarrow> real list \<Rightarrow> real list) \<Rightarrow> real list \<Rightarrow> real list list \<Rightarrow> real list list \<Rightarrow>
   real list list \<Rightarrow> error + real option" where
  "gradient_penalty critic_grad alpha x x_hat context =
     (if length alpha \<noteq> length x \<or> length context \<noteq> length x \<or>
         \<not> list_all2 (\<lambda>xr xh. length xr = length xh) x x_hat
      then Inl (RuntimeError ''shape mismatch'')
      else
        let gradients = interpolated_gradients critic_grad alpha x x_hat context;
            penalty = tensor_mean (map (\<lambda>g. relu (l2_norm g - 1)) gradients)
        in Inr penalty)"

subsection \<open>The optimistic Adam optimizer (\<^verbatim>\<open>OAdam\<close>)\<close>

text \<open>
  A parameter's gradient is absent (\<^verbatim>\<open>p.grad is None\<close>), a dense tensor or a sparse
  one. A parameter group holds the hyperparameters the constructor stores in
  \<^verbatim>\<open>defaults\<close>; the optimizer's state for a parameter is empty (\<open>None\<close>) until
  its first update. A parameter slot is a parameter with its gradient and its state.
\<close>

datatype gradient = NoGrad | Dense "real list" | Sparse "real list"

record param_group =
  lr :: real
  betas :: "real \<times> real"
  eps :: real
  weight_decay :: real
  amsgrad :: bool

record param_state =
  state_step :: nat
  exp_avg :: "real list"
  exp_avg_sq :: "real list"
  max_exp_avg_sq :: "real list option"

record param_slot =
  data :: "real list"
  grad :: gradient
  state :: "param_state option"

text \<open>
  \<^verbatim>\<open>OAdam.__init__\<close>, first part: the four range checks, in this order, and the
  dictionary \<^verbatim>\<open>defaults\<close>.
\<close>

definition OAdam_defaults :: "real \<Rightarrow> real \<times> real \<Rightarrow> real \<Rightarrow> real \<Rightarrow> bool \<Rightarrow> error + param_group" where
  "OAdam_defaults lr0 betas0 eps0 weight_decay0 amsgrad0 =
     (if \<not> 0 \<le> lr0 then Inl (ValueError ''Invalid learning rate'')
      else if \<not> 0 \<le> eps0 then Inl (ValueError ''Invalid epsilon value'')
      else if \<not> (0 \<le> fst betas0 \<and> fst betas0 < 1)
        then Inl (ValueError ''Invalid beta parameter at index 0'')
      else if \<not> (0 \<le> snd betas0 \<and> snd betas0 < 1)
        then Inl (ValueError ''Invalid beta parameter at index 1'')
      else Inr \<lparr>lr = lr0, betas = betas0, eps = eps0,
                weight_decay = weight_decay0, amsgrad = amsgrad0\<rparr>)"

text \<open>
  \<^verbatim>\<open>OAdam.__init__\<close> as a whole: after the checks it ends with
  \<^verbatim>\<open>super(OAdam, self).__init__(params, defaults)\<close>. The base constructor belongs to
  the tensor library, not to this module, and is an argument of the model: it takes the
  parameters and the defaults and returns the optimizer or raises.
\<close>

definition OAdam_init ::
  "('ps \<Rightarrow> param_group \<Rightarrow> error + 'opt) \<Rightarrow> 'ps \<Rightarrow> real \<Rightarrow> real \<times> real \<Rightarrow> real \<Rightarrow> real \<Rightarrow> bool \<Rightarrow>
   error + 'opt" where
  "OAdam_init base_init params lr0 betas0 eps0 weight_decay0 amsgrad0 =
     (case OAdam_defaults lr0 betas0 eps0 weight_decay0 amsgrad0 of
        Inl e \<Rightarrow> Inl e
      | Inr defaults \<Rightarrow> base_init params defaults)"

text \<open>
  The base constructor as the library has it for a list of parameters: an empty list is
  refused, and otherwise the parameters form one group with the defaults. (The library
  also refuses a bare tensor in place of the list; the list type leaves that out.) It is
  used for concrete runs; the statements about \<open>OAdam_init\<close> hold for every base
  constructor.
\<close>

definition Optimizer_init ::
  "param_slot list \<Rightarrow> param_group \<Rightarrow> error + (param_group \<times> param_slot list) list" where
  "Optimizer_init params defaults =
     (if params = [] then Inl (ValueError ''optimizer got an empty parameter list'')
      else Inr [(defaults, params)])"

text \<open>
  The in-place tensor operations of \<^verbatim>\<open>step\<close>, elementwise:
  \<^verbatim>\<open>add_(c, other)\<close> is \<open>self + c * other\<close>, \<^verbatim>\<open>mul_(c)\<close> is \<open>self * c\<close>,
  \<^verbatim>\<open>addcmul_(c, t1, t2)\<close> is \<open>self + c * t1 * t2\<close>, \<^verbatim>\<open>addcdiv_(c, t1, t2)\<close> is
  \<open>self + c * (t1 / t2)\<close>, and \<^verbatim>\<open>t.sqrt().add(c)\<close> is \<open>sqrt t + c\<close>.
\<close>

definition zeros_like :: "real list \<Rightarrow> real list" where
  "zeros_like t = map (\<lambda>_. 0) t"

definition tensor_add :: "real list \<Rightarrow> real \<Rightarrow> real list \<Rightarrow> real list" where
  "tensor_add self c other = map2 (\<lambda>s t. s + c * t) self other"

definition tensor_mul :: "real list \<Rightarrow> real \<Rightarrow> real list" where
  "tensor_mul self c = map (\<lambda>s. s * c) self"

definition tensor_addcmul :: "real list \<Rightarrow> real \<Rightarrow> real list \<Rightarrow> real list \<Rightarrow> real list" where
  "tensor_addcmul self c t1 t2 = map (\<lambda>(s, a, b). s + c * a * b) (zip self (zip t1 t2))"

definition tensor_addcdiv :: "real list \<Rightarrow> real \<Rightarrow> real list \<Rightarrow> real list \<Rightarrow> real list" where
  "tensor_addcdiv self c t1 t2 = map (\<lambda>(s, a, b). s + c * (a / b)) (zip self (zip t1 t2))"

definition tensor_sqrt_add :: "real list \<Rightarrow> real \<Rightarrow> real list" where
  "tensor_sqrt_add t c = map (\<lambda>v. sqrt v + c) t"

definition tensor_max :: "real list \<Rightarrow> real list \<Rightarrow> real list" where
  "tensor_max a b = map2 max a b"

text \<open>The state initialisation under \<^verbatim>\<open>if len(state) == 0\<close>.\<close>

definition initial_state :: "param_group \<Rightarrow> real list \<Rightarrow> param_state" where
  "initial_state grp p_data =
     \<lparr>state_step = 0, exp_avg = zeros_like p_data, exp_avg_sq = zeros_like p_data,
      max_exp_avg_sq = (if amsgrad grp then Some (zeros_like p_data) else None)\<rparr>"

definition get_state :: "param_group \<Rightarrow> param_slot \<Rightarrow> param_state" where
  "get_state grp p = (case state p of None \<Rightarrow> initial_state grp (data p) | Some st \<Rightarrow> st)"

text \<open>
  The body of the loop over \<^verbatim>\<open>group['params']\<close> for a parameter with a dense
  gradient. \<^verbatim>\<open>state['max_exp_avg_sq']\<close> raises when the state was created without
  it; \<^verbatim>\<open>math.sqrt\<close> raises on a negative argument and Python's float division on a
  zero divisor. The first \<^verbatim>\<open>addcdiv_\<close> has the factor \<^verbatim>\<open>step_size\<close>, the second
  \<^verbatim>\<open>-2.0 * step_size\<close>.
\<close>

definition oadam_dense :: "param_group \<Rightarrow> param_slot \<Rightarrow> real list \<Rightarrow> error + param_slot" where
  "oadam_dense grp p grad0 =
     (let st = get_state grp p;
          beta1 = fst (betas grp);
          beta2 = snd (betas grp);
          t = state_step st + 1;
          g = (if weight_decay grp \<noteq> 0 then tensor_add grad0 (weight_decay grp) (data p)
               else grad0);
          bias_correction1 = 1 - beta1 ^ t;
          bias_correction2 = 1 - beta2 ^ t
      in if amsgrad grp \<and> max_exp_avg_sq st = None then Inl (KeyError ''max_exp_avg_sq'')
         else if bias_correction2 < 0 then Inl (ValueError ''math domain error'')
         else if bias_correction1 = 0 then Inl ZeroDivisionError
         else
           let step_size = lr grp * sqrt bias_correction2 / bias_correction1;
               p1 = tensor_addcdiv (data p) step_size (exp_avg st)
                      (tensor_sqrt_add (exp_avg_sq st) (eps grp));
               m = tensor_add (tensor_mul (exp_avg st) beta1) (1 - beta1) g;
               v = tensor_addcmul (tensor_mul (exp_avg_sq st) beta2) (1 - beta2) g g;
               vmax = (case max_exp_avg_sq st of
                         Some mx \<Rightarrow> if amsgrad grp then Some (tensor_max mx v) else Some mx
                       | None \<Rightarrow> None);
               denom = (case vmax of
                          Some mx \<Rightarrow> if amsgrad grp then tensor_sqrt_add mx (eps grp)
                                     else tensor_sqrt_add v (eps grp)
                        | None \<Rightarrow> tensor_sqrt_add v (eps grp));
               p2 = tensor_addcdiv p1 (- 2 * step_size) m denom
           in Inr \<lparr>data = p2, grad = Dense g,
                   state = Some \<lparr>state_step = t, exp_avg = m, exp_avg_sq = v,
                                 max_exp_avg_sq = vmax\<rparr>\<rparr>)"

definition oadam_param :: "param_group \<Rightarrow> param_slot \<Rightarrow> error + param_slot" where
  "oadam_param grp p =
     (case grad p of
        NoGrad \<Rightarrow> Inr p
      | Sparse t \<Rightarrow> Inl (RuntimeError
          ''Adam does not support sparse gradients, please consider SparseAdam instead'')
      | Dense grad0 \<Rightarrow> oadam_dense grp p grad0)"

definition oadam_group :: "param_group \<times> param_slot list \<Rightarrow> error + param_group \<times> param_slot list" where
  "oadam_group gp =
     (case map_rows (oadam_param (fst gp)) (snd gp) of
        Inl e \<Rightarrow> Inl e
      | Inr ps \<Rightarrow> Inr (fst gp, ps))"

definition OAdam_step ::
  "(param_group \<times> param_slot list) list \<Rightarrow> error + (param_group \<times> param_slot list) list" where
  "OAdam_step param_groups = map_rows oadam_group param_groups"

text \<open>
  A state that fits a parameter of \<open>n\<close> entries: moments of that shape, second
  moments non-negative (they are running averages of squares), and the running maximum
  present when \<^verbatim>\<open>amsgrad\<close> is on.
\<close>

definition state_ok :: "bool \<Rightarrow> nat \<Rightarrow> param_state \<Rightarrow> bool" where
  "state_ok ams n st \<longleftrightarrow>
     length (exp_avg st) = n \<and> length (exp_avg_sq st) = n \<and>
     list_all (\<lambda>v. 0 \<le> v) (exp_avg_sq st) \<and>
     (if ams then (case max_exp_avg_sq st of
                     None \<Rightarrow> False
                   | Some mx \<Rightarrow> length mx = n \<and> list_all (\<lambda>v. 0 \<le> v) mx)
      else True)"

definition step_size_at :: "param_group \<Rightarrow> nat \<Rightarrow> real" where
  "step_size_at grp t = lr grp * sqrt (1 - snd (betas grp) ^ t) / (1 - fst (betas grp) ^ t)"

definition denominator_moment :: "param_group \<Rightarrow> param_state \<Rightarrow> real list \<Rightarrow> nat \<Rightarrow> real" where
  "denominator_moment grp st v i =
     (case max_exp_avg_sq st of
        Some mx \<Rightarrow> if amsgrad grp then max (mx ! i) (v ! i) else v ! i
      | None \<Rightarrow> v ! i)"

text \<open>
  The update as the specification words it, for comparison with \<open>oadam_dense\<close>:
  subtract \<open>step_size * m / (sqrt v + eps)\<close> with the current moments, update the
  moments, subtract \<open>2 * step_size * m / (sqrt v + eps)\<close> with the updated ones.
\<close>

definition claimed_update_data :: "param_group \<Rightarrow> param_slot \<Rightarrow> real list \<Rightarrow> real list" where
  "claimed_update_data grp p grad0 =
     (let st = get_state grp p;
          beta1 = fst (betas grp);
          beta2 = snd (betas grp);
          t = state_step st + 1;
          step_size = lr grp * sqrt (1 - beta2 ^ t) / (1 - beta1 ^ t);
          p1 = tensor_addcdiv (data p) (- step_size) (exp_avg st)
                 (tensor_sqrt_add (exp_avg_sq st) (eps grp));
          m = tensor_add (tensor_mul (exp_avg st) beta1) (1 - beta1) grad0;
          v = tensor_addcmul (tensor_mul (exp_avg_sq st) beta2) (1 - beta2) grad0 grad0
      in tensor_addcdiv p1 (- 2 * step_size) m (tensor_sqrt_add v (eps grp)))"

text \<open>
  A small optimizer for concrete runs: a parameter after one update with gradient 1
  (moments 1 and 1), now with gradient 0.
\<close>

definition example_group :: param_group where
  "example_group = \<lparr>lr = 1, betas = (0, 0), eps = 1, weight_decay = 0, amsgrad = False\<rparr>"

definition example_slot :: param_slot where
  "example_slot = \<lparr>data = [0], grad = Dense [0],
     state = Some \<lparr>state_step = 1, exp_avg = [1], exp_avg_sq = [1], max_exp_avg_sq = None\<rparr>\<rparr>"

subsection \<open>The data wrapper (\<^verbatim>\<open>DataWrapper\<close>)\<close>

text \<open>
  A data frame is a list of rows; a row gives the values of the continuous, the
  categorical and the context columns in the order of the three variable lists, so
  \<^verbatim>\<open>df[self.variables["continuous"]]\<close> is the list of the \<open>row_continuous\<close>.
  The three lists are taken to name different columns. Categorical values are labels of
  a linearly ordered type \<open>'l\<close> (strings, say); the branch of the source for a
  categorical column of floats is not part of the model.
\<close>

record 'l table_row =
  row_continuous :: "real list"
  row_categorical :: "'l list"
  row_context :: "real list"

text \<open>
  The attributes of the wrapper. \<^verbatim>\<open>means\<close> and \<^verbatim>\<open>stds\<close> are the two tensors for
  the continuous and the context columns. For a categorical variable, \<open>int_to_words\<close>
  is its vocabulary in column order: \<^verbatim>\<open>int_to_words[v][i]\<close> is the \<open>i\<close>-th label and
  \<^verbatim>\<open>words_to_int[v]\<close> the inverse table; \<open>cat_labels\<close> are the codes of the one-hot
  columns.
\<close>

record 'l data_wrapper =
  continuous_vars :: "string list"
  categorical_vars :: "string list"
  context_vars :: "string list"
  means :: "real list \<times> real list"
  stds :: "real list \<times> real list"
  wrapper_cat_dims :: "nat list"
  int_to_words :: "'l list list"
  cat_labels :: "nat list list"
  wrapper_cont_bounds :: "(real \<times> real) list"

text \<open>
  \<^verbatim>\<open>x.mean(0)\<close> and \<^verbatim>\<open>x.std(0)\<close> (the sample standard deviation) of one column.
  On fewer than two rows the library's standard deviation is not a number; the model is
  meant for frames of at least two rows.
\<close>

definition tensor_column :: "nat \<Rightarrow> 'a list list \<Rightarrow> 'a list" where
  "tensor_column j rows = map (\<lambda>r. r ! j) rows"

definition column_mean :: "real list \<Rightarrow> real" where
  "column_mean xs = sum_list xs / real (length xs)"

definition column_std :: "real list \<Rightarrow> real" where
  "column_std xs =
     sqrt (sum_list (map (\<lambda>x. (x - column_mean xs) ^ 2) xs) / (real (length xs) - 1))"

text \<open>
  \<^verbatim>\<open>DataWrapper.__init__\<close>: statistics of the columns, the number of distinct values
  and the sorted distinct values (the columns of \<^verbatim>\<open>pd.get_dummies\<close>) of each categorical
  column, and the bounds, \<open>\<plusminus>1e8\<close> where none is given, on the standardised scale.
  The loop over the categorical variables reads \<^verbatim>\<open>df[v][0]\<close>, which raises on a frame
  without rows.
\<close>

definition DataWrapper_init ::
  "('l::linorder) table_row list \<Rightarrow> string list \<Rightarrow> string list \<Rightarrow> string list \<Rightarrow>
   (string \<rightharpoonup> real) \<Rightarrow> (string \<rightharpoonup> real) \<Rightarrow> error + 'l data_wrapper" where
  "DataWrapper_init df continuous_vars0 categorical_vars0 context_vars0
       continuous_lower_bounds continuous_upper_bounds =
     (if categorical_vars0 \<noteq> [] \<and> df = [] then Inl (KeyError ''0'')
      else Inr (
      let continuous = map row_continuous df;
          context = map row_context df;
          categorical = map row_categorical df;
          means0 = (map (\<lambda>j. column_mean (tensor_column j continuous)) [0..<length continuous_vars0],
                    map (\<lambda>j. column_mean (tensor_column j context)) [0..<length context_vars0]);
          stds0 = (map (\<lambda>j. column_std (tensor_column j continuous) + 1 / 100000)
                     [0..<length continuous_vars0],
                   map (\<lambda>j. column_std (tensor_column j context) + 1 / 100000)
                     [0..<length context_vars0]);
          feature_labels = map (\<lambda>j. sort (remdups (tensor_column j categorical)))
                             [0..<length categorical_vars0]
      in \<lparr>continuous_vars = continuous_vars0,
          categorical_vars = categorical_vars0,
          context_vars = context_vars0,
          means = means0,
          stds = stds0,
          wrapper_cat_dims = map (\<lambda>j. length (remdups (tensor_column j categorical)))
                               [0..<length categorical_vars0],
          int_to_words = feature_labels,
          cat_labels = map (\<lambda>ls. [0..<length ls]) feature_labels,
          wrapper_cont_bounds =
            map (\<lambda>j. (((case continuous_lower_bounds (continuous_vars0 ! j) of
                            Some b \<Rightarrow> b | None \<Rightarrow> - 100000000) - fst means0 ! j) / fst stds0 ! j,
                        ((case continuous_upper_bounds (continuous_vars0 ! j) of
                            Some b \<Rightarrow> b | None \<Rightarrow> 100000000) - fst means0 ! j) / fst stds0 ! j))
              [0..<length continuous_vars0]\<rparr>))"

subsection \<open>Specifications (\<^verbatim>\<open>Specifications.__init__\<close>)\<close>

text \<open>
  The constructor stores its keyword arguments as \<^verbatim>\<open>settings\<close>, replaces the sentinel
  of \<^verbatim>\<open>generator_d_noise\<close> by \<^verbatim>\<open>d_x\<close>, and derives the dimensions \<^verbatim>\<open>data\<close> from
  the wrapper. It has no \<^verbatim>\<open>raise\<close>.
\<close>

record data_dims =
  d_context :: nat
  d_x :: nat
  data_cat_dims :: "nat list"
  data_cont_bounds :: "(real \<times> real) list"

record 'o specifications =
  spec_settings :: "'o settings"
  spec_data :: data_dims

definition Specifications_init :: "'l data_wrapper \<Rightarrow> 'o settings \<Rightarrow> error + 'o specifications" where
  "Specifications_init data_wrapper0 args =
     (let d_context0 = length (context_vars data_wrapper0);
          d_cont0 = length (continuous_vars data_wrapper0);
          d_x0 = d_cont0 + sum_list (wrapper_cat_dims data_wrapper0);
          settings0 = (if generator_d_noise args = GeneratorDOutput
                       then args\<lparr>generator_d_noise := NoiseDim (int d_x0)\<rparr>
                       else args)
      in Inr \<lparr>spec_settings = settings0,
              spec_data = \<lparr>d_context = d_context0, d_x = d_x0,
                            data_cat_dims = wrapper_cat_dims data_wrapper0,
                            data_cont_bounds = wrapper_cont_bounds data_wrapper0\<rparr>\<rparr>)"

text \<open>The two attributes \<^verbatim>\<open>Generator.__init__\<close> copies from the specifications.\<close>

definition Generator_init :: "'o specifications \<Rightarrow> generator" where
  "Generator_init specifications0 =
     \<lparr>cont_bounds = data_cont_bounds (spec_data specifications0),
      cat_dims = data_cat_dims (spec_data specifications0)\<rparr>"

text \<open>A wrapper for one continuous variable and one categorical variable of two labels.\<close>

definition example_wrapper :: "string data_wrapper" where
  "example_wrapper =
     \<lparr>continuous_vars = [''age''], categorical_vars = [''color''], context_vars = [],
      means = ([1], []), stds = ([100001 / 100000], []),
      wrapper_cat_dims = [2], int_to_words = [[''blue'', ''red'']], cat_labels = [[0, 1]],
      wrapper_cont_bounds = [(0, 1)]\<rparr>"

subsection \<open>Resuming from a checkpoint (\<^verbatim>\<open>train\<close>, set-up)\<close>

text \<open>
  A checkpoint is the dictionary \<^verbatim>\<open>torch.save\<close> writes: the epoch, the step counter and
  four state dictionaries (values of a type \<open>'sd\<close>). \<^verbatim>\<open>torch.load\<close> is a table from
  paths to checkpoints.
\<close>

record 'sd checkpoint =
  cp_epoch :: int
  cp_step :: int
  generator_state_dict :: 'sd
  critic_state_dict :: 'sd
  opt_generator_state_dict :: 'sd
  opt_critic_state_dict :: 'sd

record 'sd networks =
  generator_state :: 'sd
  opt_generator_state :: 'sd
  critic_state :: 'sd
  opt_critic_state :: 'sd

record 'sd train_entry =
  entry_networks :: "'sd networks"
  start_epoch :: int
  entry_step :: int

text \<open>
  The code of \<^verbatim>\<open>train\<close> before the epoch loop: \<^verbatim>\<open>start_epoch, step = 0, 1\<close>, and if
  \<^verbatim>\<open>s["load_checkpoint"]\<close> is truthy (neither \<^verbatim>\<open>None\<close> nor the empty string) the four
  \<^verbatim>\<open>load_state_dict\<close> calls and \<^verbatim>\<open>start_epoch, step = cp["epoch"], cp["step"]\<close>.
\<close>

definition train_setup ::
  "'o settings \<Rightarrow> (string \<rightharpoonup> 'sd checkpoint) \<Rightarrow> 'sd networks \<Rightarrow> error + 'sd train_entry" where
  "train_setup s torch_load nets =
     (case load_checkpoint s of
        None \<Rightarrow> Inr \<lparr>entry_networks = nets, start_epoch = 0, entry_step = 1\<rparr>
      | Some path \<Rightarrow>
          if path = [] then Inr \<lparr>entry_networks = nets, start_epoch = 0, entry_step = 1\<rparr>
          else (case torch_load path of
                  None \<Rightarrow> Inl FileNotFoundError
                | Some cp \<Rightarrow>
                    Inr \<lparr>entry_networks =
                           \<lparr>generator_state = generator_state_dict cp,
                            opt_generator_state = opt_generator_state_dict cp,
                            critic_state = critic_state_dict cp,
                            opt_critic_state = opt_critic_state_dict cp\<rparr>,
                         start_epoch = cp_epoch cp,
                         entry_step = cp_step cp\<rparr>))"

text \<open>
  \<^verbatim>\<open>range(a, b)\<close>, and the values the loop variable of
  \<^verbatim>\<open>for epoch in range(start_epoch, s["max_epochs"])\<close> takes, in order, when the loop
  runs to its end.
\<close>

definition py_range :: "int \<Rightarrow> int \<Rightarrow> int list" where
  "py_range a b = [a..b - 1]"

definition train_epochs :: "'o settings \<Rightarrow> 'sd train_entry \<Rightarrow> int list" where
  "train_epochs s e = py_range (start_epoch e) (max_epochs s)"

text \<open>The counters on entering the first mini-batch loop.\<close>

definition entry_loop_state :: "'sd train_entry \<Rightarrow> loop_state" where
  "entry_loop_state e = \<lparr>step = entry_step e, n_batches = 0, updates = []\<rparr>"

text \<open>A checkpoint written at the end of epoch 3, and settings that load it.\<close>

definition example_checkpoint :: "nat checkpoint" where
  "example_checkpoint =
     \<lparr>cp_epoch = 3, cp_step = 41, generator_state_dict = 1, critic_state_dict = 2,
      opt_generator_state_dict = 3, opt_critic_state_dict = 4\<rparr>"

definition example_files :: "string \<rightharpoonup> nat checkpoint" where
  "example_files = [''model.pt'' \<mapsto> example_checkpoint]"

definition example_resume_settings :: "unit settings" where
  "example_resume_settings = (default_settings () ''cpu'')\<lparr>load_checkpoint := Some ''model.pt''\<rparr>"

definition fresh_networks :: "nat networks" where
  "fresh_networks =
     \<lparr>generator_state = 0, opt_generator_state = 0, critic_state = 0, opt_critic_state = 0\<rparr>"

subsection \<open>The kernel-regression monotonicity penalty (\<^verbatim>\<open>monotonicity_penalty_kernreg\<close>)\<close>

text \<open>
  Indexing a one-dimensional tensor, negative indices counting from the end; and indexing
  after \<^verbatim>\<open>.squeeze()\<close> of a tensor of shape \<open>(1, k)\<close>, which for \<open>k = 1\<close> is a
  scalar and cannot be indexed.
\<close>

definition py_index :: "'a list \<Rightarrow> int \<Rightarrow> error + 'a" where
  "py_index xs i =
     (if 0 \<le> i \<and> i < int (length xs) then Inr (xs ! nat i)
      else if i < 0 \<and> - int (length xs) \<le> i then Inr (xs ! nat (int (length xs) + i))
      else Inl IndexError)"

definition squeezed_index :: "'a list \<Rightarrow> int \<Rightarrow> error + 'a" where
  "squeezed_index xs i = (if length xs = 1 then Inl IndexError else py_index xs i)"

text \<open>
  The factory returns the closure \<^verbatim>\<open>penalty\<close>; the model returns the values the
  closure captures. The name \<^verbatim>\<open>x\<close> in \<^verbatim>\<open>x_min = x.min()\<close> is bound neither in the
  factory (the \<^verbatim>\<open>x\<close> of the generator expression and of \<^verbatim>\<open>penalty\<close> are local to
  those) nor in the module, so reading it raises. With a wrapper, the generator
  expression subtracts the mean from each endpoint, which raises on \<^verbatim>\<open>None\<close>.
\<close>

record kernreg_closure =
  kr_factor :: real
  kr_h :: real
  kr_idx_out :: int
  kr_idx_in :: int
  kr_x_min :: real
  kr_x_max :: real

definition monotonicity_penalty_kernreg ::
  "real \<Rightarrow> real \<Rightarrow> int \<Rightarrow> int \<Rightarrow> real option \<Rightarrow> real option \<Rightarrow> 'l data_wrapper option \<Rightarrow>
   error + kernreg_closure" where
  "monotonicity_penalty_kernreg factor h idx_out idx_in x_min x_max data_wrapper0 =
     (case data_wrapper0 of
        Some dw \<Rightarrow>
          (case squeezed_index (fst (stds dw) @ snd (stds dw)) idx_in of
             Inl e \<Rightarrow> Inl e
           | Inr x_std \<Rightarrow>
               (case squeezed_index (fst (means dw) @ snd (means dw)) idx_in of
                  Inl e \<Rightarrow> Inl e
                | Inr x_mean \<Rightarrow>
                    (case x_min of
                       None \<Rightarrow> Inl TypeError
                     | Some a \<Rightarrow>
                         (case x_max of
                            None \<Rightarrow> Inl TypeError
                          | Some b \<Rightarrow>
                              Inr \<lparr>kr_factor = factor, kr_h = h, kr_idx_out = idx_out,
                                   kr_idx_in = idx_in,
                                   kr_x_min = (a - x_mean) / (x_std + 1 / 1000),
                                   kr_x_max = (b - x_mean) / (x_std + 1 / 1000)\<rparr>))))
      | None \<Rightarrow>
          (case x_min of
             None \<Rightarrow> Inl (NameError ''x'')
           | Some a \<Rightarrow>
               (case x_max of
                  None \<Rightarrow> Inl (NameError ''x'')
                | Some b \<Rightarrow>
                    Inr \<lparr>kr_factor = factor, kr_h = h, kr_idx_out = idx_out,
                         kr_idx_in = idx_in, kr_x_min = a, kr_x_max = b\<rparr>)))"

subsection \<open>Encoding and decoding (\<^verbatim>\<open>DataWrapper.preprocess\<close>, \<^verbatim>\<open>deprocess\<close>)\<close>

text \<open>
  \<^verbatim>\<open>(x - m) / s\<close> and \<^verbatim>\<open>x * s + m\<close> on one row, with the row of means and the row of
  standard deviations.
\<close>

definition zscore :: "real list \<Rightarrow> real list \<Rightarrow> real list \<Rightarrow> real list" where
  "zscore x m s = map (\<lambda>(x, m, s). (x - m) / s) (zip x (zip m s))"

definition unscale :: "real list \<Rightarrow> real list \<Rightarrow> real list \<Rightarrow> real list" where
  "unscale x m s = map (\<lambda>(x, m, s). x * s + m) (zip x (zip m s))"

text \<open>
  \<^verbatim>\<open>pd.get_dummies(df[cats], columns=cats)\<close>: for every categorical column, in order,
  one indicator column per distinct value \<^emph>\<open>of the frame being encoded\<close>, the values
  sorted.
\<close>

definition one_hot :: "'l list \<Rightarrow> 'l \<Rightarrow> real list" where
  "one_hot cats v = map (\<lambda>c. if v = c then 1 else 0) cats"

definition get_dummies :: "('l::linorder) list list \<Rightarrow> nat \<Rightarrow> real list list" where
  "get_dummies rows n =
     map (\<lambda>r. concat (map (\<lambda>j. one_hot (sort (remdups (tensor_column j rows))) (r ! j)) [0..<n]))
       rows"

text \<open>
  \<^verbatim>\<open>preprocess\<close>. Its only \<^verbatim>\<open>raise\<close> is for a value that is not a number, which
  real arithmetic does not have.
\<close>

definition preprocess ::
  "('l::linorder) data_wrapper \<Rightarrow> 'l table_row list \<Rightarrow> error + real list list \<times> real list list" where
  "preprocess w df =
     (let x = map (\<lambda>r. zscore (row_continuous r) (fst (means w)) (fst (stds w))) df;
          context = map (\<lambda>r. zscore (row_context r) (snd (means w)) (snd (stds w))) df;
          x = (if length (categorical_vars w) > 0
               then map2 (@) x (get_dummies (map row_categorical df) (length (categorical_vars w)))
               else x)
      in Inr (x, context))"

text \<open>
  \<^verbatim>\<open>torch.multinomial(p, 1)\<close> on one row of weights: it rejects a negative weight and
  a sum that is not positive, and otherwise returns an index drawn by the random number
  generator, here the function \<open>draw\<close>. The code of the drawn column is
  \<^verbatim>\<open>l[1][i]\<close>, and the label is looked up in \<^verbatim>\<open>int_to_words\<close>, a missing code
  giving no value.
\<close>

definition multinomial :: "(real list \<Rightarrow> nat) \<Rightarrow> real list \<Rightarrow> error + nat" where
  "multinomial draw p =
     (if list_ex (\<lambda>v. v < 0) p \<or> sum_list p \<le> 0
      then Inl (RuntimeError ''invalid multinomial distribution'')
      else Inr (draw p))"

definition sample_code :: "(real list \<Rightarrow> nat) \<Rightarrow> real list \<times> nat list \<Rightarrow> error + nat" where
  "sample_code draw pl =
     (case multinomial draw (fst pl) of
        Inl e \<Rightarrow> Inl e
      | Inr i \<Rightarrow> if i < length (snd pl) then Inr (snd pl ! i) else Inl IndexError)"

definition lookup_word :: "'l list \<Rightarrow> nat \<Rightarrow> 'l option" where
  "lookup_word words code = (if code < length words then Some (words ! code) else None)"

text \<open>
  \<^verbatim>\<open>deprocess\<close> with \<^verbatim>\<open>n_features = 1\<close>, where \<^verbatim>\<open>filler_vars\<close> is empty and the
  wrapper is left as it is; first on one row of \<^verbatim>\<open>x\<close> and \<^verbatim>\<open>context\<close>. A wrapper
  built by the constructor has a categorical slice of width 0 only when it has no
  categorical variable.
\<close>

definition deprocess_row ::
  "'l data_wrapper \<Rightarrow> (real list \<Rightarrow> nat) \<Rightarrow> real list \<times> real list \<Rightarrow> error + 'l option table_row" where
  "deprocess_row w draw xc =
     (case tensor_split [length (fst (means w)), sum_list (wrapper_cat_dims w)] (fst xc) of
        Inl e \<Rightarrow> Inl e
      | Inr parts \<Rightarrow>
          let continuous = unscale (parts ! 0) (fst (means w)) (fst (stds w));
              context = unscale (snd xc) (snd (means w)) (snd (stds w));
              categorical = parts ! 1
          in if length categorical > 0
             then (case tensor_split (wrapper_cat_dims w) categorical of
                     Inl e \<Rightarrow> Inl e
                   | Inr blocks \<Rightarrow>
                       (case map_rows (sample_code draw) (zip blocks (cat_labels w)) of
                          Inl e \<Rightarrow> Inl e
                        | Inr codes \<Rightarrow>
                            Inr \<lparr>row_continuous = continuous,
                                 row_categorical = map2 lookup_word (int_to_words w) codes,
                                 row_context = context\<rparr>))
             else Inr \<lparr>row_continuous = continuous, row_categorical = [],
                       row_context = context\<rparr>)"

definition deprocess ::
  "'l data_wrapper \<Rightarrow> (real list \<Rightarrow> nat) \<Rightarrow> real list list \<Rightarrow> real list list \<Rightarrow>
   error + 'l option table_row list" where
  "deprocess w draw x context =
     (if length x \<noteq> length context then Inl (RuntimeError ''size mismatch'')
      else map_rows (deprocess_row w draw) (zip x context))"

text \<open>A sampler for concrete runs: the first index of positive weight.\<close>

definition first_positive :: "real list \<Rightarrow> nat" where
  "first_positive p = length (takeWhile (\<lambda>v. v \<le> 0) p)"

text \<open>
  A training frame of three rows, one continuous variable and one categorical variable
  with the labels red and blue, and the wrapper the constructor builds from it.
\<close>

definition training_frame :: "string table_row list" where
  "training_frame =
     [\<lparr>row_continuous = [0], row_categorical = [''red''], row_context = []\<rparr>,
      \<lparr>row_continuous = [1], row_categorical = [''blue''], row_context = []\<rparr>,
      \<lparr>row_continuous = [2], row_categorical = [''red''], row_context = []\<rparr>]"

definition fitted_wrapper :: "string data_wrapper" where
  "fitted_wrapper =
     \<lparr>continuous_vars = [''age''], categorical_vars = [''color''], context_vars = [],
      means = ([1], []), stds = ([100001 / 100000], []),
      wrapper_cat_dims = [2], int_to_words = [[''blue'', ''red'']], cat_labels = [[0, 1]],
      wrapper_cont_bounds = [((- 100000000 - 1) / (100001 / 100000), (100000000 - 1) / (100001 / 100000))]\<rparr>"

section \<open>Step alternation\<close>










section \<open>The generator's output transform\<close>

lemma length_split_sizes [simp]: "length (split_sizes ds xs) = length ds"
  by (induction ds arbitrary: xs) simp_all

lemma split_sizes_lengths:
  "sum_list ds \<le> length xs \<Longrightarrow> map length (split_sizes ds xs) = ds"
  by (induction ds arbitrary: xs) simp_all

lemma split_sizes_concat:
  "map length bs = ds \<Longrightarrow> split_sizes ds (concat bs @ rest) = bs"
  by (induction bs arbitrary: ds) auto

lemma length_softmax [simp]: "length (softmax xs) = length xs"
  by (simp add: softmax_def)

lemma sum_exp_nonneg: "0 \<le> sum_list (map exp (xs :: real list))"
  by (rule sum_list_nonneg) auto

lemma sum_exp_pos: "xs \<noteq> [] \<Longrightarrow> 0 < sum_list (map exp (xs :: real list))"
proof (cases xs)
  case Nil
  assume "xs \<noteq> []"
  with Nil show ?thesis by simp
next
  case (Cons a as)
  have "0 < exp a + sum_list (map exp as)"
    by (rule add_pos_nonneg) (simp_all add: sum_exp_nonneg)
  with Cons show ?thesis by simp
qed

lemma softmax_nonneg: "p \<in> set (softmax xs) \<Longrightarrow> 0 < p"
  by (cases "xs = []") (auto simp: softmax_def sum_exp_pos)

lemma sum_list_divide: "sum_list (map (\<lambda>x. f x / (c::real)) xs) = sum_list (map f xs) / c"
  by (induction xs) (simp_all add: add_divide_distrib)

lemma softmax_sum: "xs \<noteq> [] \<Longrightarrow> sum_list (softmax xs) = 1"
  using sum_exp_pos[of xs] by (simp add: softmax_def sum_list_divide)

lemma map_rows_Inr:
  "\<forall>x\<in>set xs. f x = Inr (h x) \<Longrightarrow> map_rows f xs = Inr (map h xs)"
  by (induction xs) simp_all

lemma concat_softmax_nil:
  "concat (map softmax (split_sizes ds [])) = []"
  by (induction ds) (simp_all add: softmax_def)

lemma Generator_transform_row_eq:
  assumes "length hidden = d_cont g + d_cat g"
  shows "Generator_transform_row g hidden =
     Inr (clamp_row g (take (d_cont g) hidden) @
          concat (map softmax (split_sizes (cat_dims g) (drop (d_cont g) hidden))))"
proof -
  let ?co = "take (d_cont g) hidden"
  let ?ca = "drop (d_cont g) hidden"
  let ?co' = "if length ?co > 0 then clamp_row g ?co else ?co"
  have sp: "tensor_split [d_cont g, d_cat g] hidden = Inr [?co, ?ca]"
    using assms by (simp add: tensor_split_def)
  have sc: "tensor_split (cat_dims g) ?ca = Inr (split_sizes (cat_dims g) ?ca)"
    using assms by (simp add: tensor_split_def d_cat_def)
  have unfold: "Generator_transform_row g hidden =
      (if length ?ca > 0 then Inr (?co' @ concat (map softmax (split_sizes (cat_dims g) ?ca)))
       else Inr (?co' @ ?ca))"
    by (simp only: Generator_transform_row_def sp sum.case Let_def nth_Cons_0 nth_Cons_Suc
          One_nat_def sc clamp_row_def if_distrib[of "\<lambda>c. c @ _"] cong: if_cong)
  have co: "?co' = clamp_row g ?co"
    by (simp add: clamp_row_def elementwise_min_def elementwise_max_def)
  have ca: "\<not> length ?ca > 0 \<Longrightarrow> ?ca = concat (map softmax (split_sizes (cat_dims g) ?ca))"
    by (simp add: concat_softmax_nil)
  show ?thesis
  proof (cases "length ?ca > 0")
    case True
    then show ?thesis unfolding unfold co by simp
  next
    case False
    then show ?thesis unfolding unfold co using ca[OF False] by simp
  qed
qed

lemma length_clamp_row:
  "length xs = d_cont g \<Longrightarrow> length (clamp_row g xs) = d_cont g"
  by (simp add: clamp_row_def elementwise_min_def elementwise_max_def d_cont_def)

lemma clamp_row_nth:
  assumes "length xs = d_cont g" "i < d_cont g"
  shows "clamp_row g xs ! i = min (max (xs ! i) (fst (cont_bounds g ! i))) (snd (cont_bounds g ! i))"
  using assms by (simp add: clamp_row_def elementwise_min_def elementwise_max_def d_cont_def)

text \<open>
  Claim C2. On a batch whose rows have the width of the generator's last layer, and with
  \<open>lower \<le> upper\<close> for every continuous variable, \<^verbatim>\<open>_transform\<close> returns a batch of
  the same shape in which every continuous coordinate lies between its lower and its upper
  bound, whatever the pre-transform values are.
\<close>

theorem Generator_transform_bounds:
  assumes "\<forall>row\<in>set hidden. length row = d_cont g + d_cat g"
      and "\<forall>b\<in>set (cont_bounds g). fst b \<le> snd b"
  shows "\<exists>out. Generator_transform g hidden = Inr out \<and> length out = length hidden \<and>
     (\<forall>n<length hidden. length (out ! n) = d_cont g + d_cat g \<and>
        (\<forall>i<d_cont g. fst (cont_bounds g ! i) \<le> out ! n ! i \<and>
                         out ! n ! i \<le> snd (cont_bounds g ! i)))"
proof -
  let ?h = "\<lambda>row. clamp_row g (take (d_cont g) row) @
          concat (map softmax (split_sizes (cat_dims g) (drop (d_cont g) row)))"
  have "\<forall>row\<in>set hidden. Generator_transform_row g row = Inr (?h row)"
    using assms(1) Generator_transform_row_eq by blast
  then have r: "Generator_transform g hidden = Inr (map ?h hidden)"
    unfolding Generator_transform_def by (rule map_rows_Inr)
  have "length (?h (hidden ! n)) = d_cont g + d_cat g \<and>
        (\<forall>i<d_cont g. fst (cont_bounds g ! i) \<le> ?h (hidden ! n) ! i \<and>
                         ?h (hidden ! n) ! i \<le> snd (cont_bounds g ! i))"
    if n: "n < length hidden" for n
  proof -
    let ?row = "hidden ! n"
    have len: "length ?row = d_cont g + d_cat g" using assms(1) n by simp
    then have lt: "length (take (d_cont g) ?row) = d_cont g" by simp
    have lc: "length (clamp_row g (take (d_cont g) ?row)) = d_cont g"
      by (rule length_clamp_row[OF lt])
    have "sum_list (cat_dims g) \<le> length (drop (d_cont g) ?row)"
      using len by (simp add: d_cat_def)
    then have "map length (split_sizes (cat_dims g) (drop (d_cont g) ?row)) = cat_dims g"
      by (rule split_sizes_lengths)
    then have "length (concat (map softmax (split_sizes (cat_dims g) (drop (d_cont g) ?row)))) = d_cat g"
      by (simp add: length_concat comp_def d_cat_def)
    then have L: "length (?h ?row) = d_cont g + d_cat g" using lc by simp
    have B: "fst (cont_bounds g ! i) \<le> ?h ?row ! i \<and> ?h ?row ! i \<le> snd (cont_bounds g ! i)"
      if i: "i < d_cont g" for i
    proof -
      have "cont_bounds g ! i \<in> set (cont_bounds g)" using i by (simp add: d_cont_def)
      then have le: "fst (cont_bounds g ! i) \<le> snd (cont_bounds g ! i)" using assms(2) by blast
      have "?h ?row ! i = clamp_row g (take (d_cont g) ?row) ! i"
        using i lc by (simp add: nth_append)
      also have "\<dots> = min (max (take (d_cont g) ?row ! i) (fst (cont_bounds g ! i))) (snd (cont_bounds g ! i))"
        by (rule clamp_row_nth[OF lt i])
      finally show ?thesis using le by simp
    qed
    show ?thesis using L B by blast
  qed
  then show ?thesis using r by simp
qed


lemma transform_row_blocks:
  assumes "length row = d_cont g + d_cat g"
  shows "split_sizes (cat_dims g)
           (drop (d_cont g) (clamp_row g (take (d_cont g) row) @
              concat (map softmax (split_sizes (cat_dims g) (drop (d_cont g) row))))) =
         map softmax (split_sizes (cat_dims g) (drop (d_cont g) row))"
proof -
  have lt: "length (take (d_cont g) row) = d_cont g" using assms by simp
  have lc: "length (clamp_row g (take (d_cont g) row)) = d_cont g"
    by (rule length_clamp_row[OF lt])
  have "sum_list (cat_dims g) \<le> length (drop (d_cont g) row)"
    using assms by (simp add: d_cat_def)
  then have "map length (split_sizes (cat_dims g) (drop (d_cont g) row)) = cat_dims g"
    by (rule split_sizes_lengths)
  then have ml: "map length (map softmax (split_sizes (cat_dims g) (drop (d_cont g) row))) = cat_dims g"
    by (simp add: comp_def)
  show ?thesis
    using split_sizes_concat[OF ml, of "[]"] lc by simp
qed

text \<open>
  Claim C3. On such a batch, when every categorical variable has at least one category,
  the categorical slice of every output row splits by \<^verbatim>\<open>cat_dims\<close> into blocks of
  those widths, each with non-negative entries that add up to 1.
\<close>

theorem Generator_transform_probabilities:
  assumes "\<forall>row\<in>set hidden. length row = d_cont g + d_cat g"
      and "\<forall>d\<in>set (cat_dims g). 0 < d"
  shows "\<exists>out. Generator_transform g hidden = Inr out \<and> length out = length hidden \<and>
     (\<forall>n<length hidden.
        map length (split_sizes (cat_dims g) (drop (d_cont g) (out ! n))) = cat_dims g \<and>
        (\<forall>blk\<in>set (split_sizes (cat_dims g) (drop (d_cont g) (out ! n))).
           (\<forall>p\<in>set blk. 0 \<le> p) \<and> sum_list blk = 1))"
proof -
  let ?h = "\<lambda>row. clamp_row g (take (d_cont g) row) @
          concat (map softmax (split_sizes (cat_dims g) (drop (d_cont g) row)))"
  have "\<forall>row\<in>set hidden. Generator_transform_row g row = Inr (?h row)"
    using assms(1) Generator_transform_row_eq by blast
  then have r: "Generator_transform g hidden = Inr (map ?h hidden)"
    unfolding Generator_transform_def by (rule map_rows_Inr)
  have "map length (split_sizes (cat_dims g) (drop (d_cont g) (?h (hidden ! n)))) = cat_dims g \<and>
        (\<forall>blk\<in>set (split_sizes (cat_dims g) (drop (d_cont g) (?h (hidden ! n)))).
           (\<forall>p\<in>set blk. 0 \<le> p) \<and> sum_list blk = 1)"
    if n: "n < length hidden" for n
  proof -
    let ?row = "hidden ! n"
    let ?bs = "split_sizes (cat_dims g) (drop (d_cont g) ?row)"
    have len: "length ?row = d_cont g + d_cat g" using assms(1) n by simp
    have eq: "split_sizes (cat_dims g) (drop (d_cont g) (?h ?row)) = map softmax ?bs"
      by (rule transform_row_blocks[OF len])
    have "sum_list (cat_dims g) \<le> length (drop (d_cont g) ?row)"
      using len by (simp add: d_cat_def)
    then have ml: "map length ?bs = cat_dims g"
      by (rule split_sizes_lengths)
    have ne: "b \<noteq> []" if "b \<in> set ?bs" for b
    proof -
      have "length b \<in> set (map length ?bs)" using that by simp
      then have "length b \<in> set (cat_dims g)" using ml by simp
      then have "0 < length b" using assms(2) by blast
      then show ?thesis by auto
    qed
    have pr: "(\<forall>p\<in>set blk. 0 \<le> p) \<and> sum_list blk = 1" if "blk \<in> set (map softmax ?bs)" for blk
    proof -
      from that obtain b where b: "b \<in> set ?bs" "blk = softmax b" by auto
      have "\<forall>p\<in>set blk. 0 \<le> p" using softmax_nonneg b(2) by (auto intro: less_imp_le)
      moreover have "sum_list blk = 1" unfolding b(2) by (rule softmax_sum[OF ne[OF b(1)]])
      ultimately show ?thesis by blast
    qed
    show ?thesis unfolding eq using ml pr by (simp add: comp_def)
  qed
  then show ?thesis using r by simp
qed

text \<open>A batch of one row: the continuous coordinate 5 is cut to its upper bound 1.\<close>

lemma Generator_transform_example:
  "Generator_transform \<lparr>cont_bounds = [(0, 1)], cat_dims = [2]\<rparr> [[5, 0, 0]] = Inr [[1, 1/2, 1/2]]"
  by (simp add: Generator_transform_def Generator_transform_row_def tensor_split_def d_cont_def
        d_cat_def elementwise_max_def elementwise_min_def softmax_def)

theorem Generator_transform_bounds_witness:
  "length [5, 0, 0 :: real] = d_cont \<lparr>cont_bounds = [(0, 1)], cat_dims = [2]\<rparr>
       + d_cat \<lparr>cont_bounds = [(0, 1)], cat_dims = [2]\<rparr> \<and>
   fst (0 :: real, 1 :: real) \<le> snd (0 :: real, 1 :: real) \<and>
   (\<exists>out. Generator_transform \<lparr>cont_bounds = [(0, 1)], cat_dims = [2]\<rparr> [[5, 0, 0]] = Inr out \<and>
      length out = 1 \<and> length (out ! 0) = 3 \<and> 0 \<le> out ! 0 ! 0 \<and> out ! 0 ! 0 \<le> 1)"
proof -
  let ?g = "\<lparr>cont_bounds = [(0 :: real, 1 :: real)], cat_dims = [2]\<rparr>"
  have w: "\<forall>row\<in>set [[5, 0, 0 :: real]]. length row = d_cont ?g + d_cat ?g"
    by (simp add: d_cont_def d_cat_def)
  have b: "\<forall>b\<in>set (cont_bounds ?g). fst b \<le> snd b" by simp
  from Generator_transform_bounds[OF w b] obtain out where
    o: "Generator_transform ?g [[5, 0, 0]] = Inr out" "length out = length [[5, 0, 0 :: real]]"
    and a: "\<forall>n<length [[5, 0, 0 :: real]]. length (out ! n) = d_cont ?g + d_cat ?g \<and>
        (\<forall>i<d_cont ?g. fst (cont_bounds ?g ! i) \<le> out ! n ! i \<and>
                         out ! n ! i \<le> snd (cont_bounds ?g ! i))"
    by blast
  from a have "length (out ! 0) = 3 \<and> 0 \<le> out ! 0 ! 0 \<and> out ! 0 ! 0 \<le> 1"
    by (simp add: d_cont_def d_cat_def)
  then show ?thesis using o by (simp add: d_cont_def d_cat_def)
qed

theorem Generator_transform_probabilities_witness:
  "length [5, 0, 0 :: real] = d_cont \<lparr>cont_bounds = [(0, 1)], cat_dims = [2]\<rparr>
       + d_cat \<lparr>cont_bounds = [(0, 1)], cat_dims = [2]\<rparr> \<and>
   (0 :: nat) < 2 \<and>
   (\<exists>out. Generator_transform \<lparr>cont_bounds = [(0, 1)], cat_dims = [2]\<rparr> [[5, 0, 0]] = Inr out \<and>
      length (take 2 (drop 1 (out ! 0))) = 2 \<and>
      0 \<le> take 2 (drop 1 (out ! 0)) ! 0 \<and> 0 \<le> take 2 (drop 1 (out ! 0)) ! 1 \<and>
      sum_list (take 2 (drop 1 (out ! 0))) = 1)"
proof -
  let ?g = "\<lparr>cont_bounds = [(0 :: real, 1 :: real)], cat_dims = [2]\<rparr>"
  have w: "\<forall>row\<in>set [[5, 0, 0 :: real]]. length row = d_cont ?g + d_cat ?g"
    by (simp add: d_cont_def d_cat_def)
  have b: "\<forall>d\<in>set (cat_dims ?g). 0 < d" by simp
  from Generator_transform_probabilities[OF w b] obtain out where
    o: "Generator_transform ?g [[5, 0, 0]] = Inr out"
    and a: "\<forall>n<length [[5, 0, 0 :: real]].
        map length (split_sizes (cat_dims ?g) (drop (d_cont ?g) (out ! n))) = cat_dims ?g \<and>
        (\<forall>blk\<in>set (split_sizes (cat_dims ?g) (drop (d_cont ?g) (out ! n))).
           (\<forall>p\<in>set blk. 0 \<le> p) \<and> sum_list blk = 1)"
    by blast
  let ?blk = "take 2 (drop 1 (out ! 0))"
  from a have l: "length ?blk = 2" and p: "\<forall>p\<in>set ?blk. 0 \<le> p" and s: "sum_list ?blk = 1"
    by (simp_all add: d_cont_def)
  have "?blk ! 0 \<in> set ?blk" "?blk ! 1 \<in> set ?blk" using l by (simp_all del: nth_take)
  then have "0 \<le> ?blk ! 0" "0 \<le> ?blk ! 1" using p by blast+
  then show ?thesis using o l s by (simp add: d_cont_def d_cat_def)
qed

section \<open>The gradient penalty\<close>

lemma relu_nonneg: "0 \<le> relu v"
  by (simp add: relu_def)

lemma relu_zero_iff: "relu (v - 1) = 0 \<longleftrightarrow> v \<le> 1"
  by (auto simp: relu_def max_def)

lemma mean_relu:
  assumes "gs \<noteq> []"
  shows "\<exists>p. tensor_mean (map (\<lambda>g. relu (l2_norm g - 1)) gs) = Some p \<and> 0 \<le> p \<and>
     (p = 0 \<longleftrightarrow> (\<forall>g\<in>set gs. l2_norm g \<le> 1))"
proof -
  let ?ts = "map (\<lambda>g. relu (l2_norm g - 1)) gs"
  have nn: "\<And>t. t \<in> set ?ts \<Longrightarrow> 0 \<le> t" by (auto simp: relu_nonneg)
  have s0: "0 \<le> sum_list ?ts" by (rule sum_list_nonneg[OF nn])
  have z: "sum_list ?ts = 0 \<longleftrightarrow> (\<forall>t\<in>set ?ts. t = 0)"
    by (rule sum_list_nonneg_eq_0_iff[OF nn])
  have z': "(\<forall>t\<in>set ?ts. t = 0) \<longleftrightarrow> (\<forall>g\<in>set gs. l2_norm g \<le> 1)"
    by (simp add: relu_zero_iff)
  have len: "0 < real (length gs)" using assms by simp
  have m: "tensor_mean ?ts = Some (sum_list ?ts / real (length gs))"
    using assms by (simp add: tensor_mean_def)
  have "sum_list ?ts / real (length gs) = 0 \<longleftrightarrow> sum_list ?ts = 0" using len by simp
  then show ?thesis using m s0 z z' len by simp
qed

lemma convex_between:
  fixes a u v :: real
  assumes "0 \<le> a" "a \<le> 1"
  shows "min u v \<le> a * u + (1 - a) * v" "a * u + (1 - a) * v \<le> max u v"
proof -
  have b: "0 \<le> 1 - a" using assms by simp
  have "a * min u v \<le> a * u" "(1 - a) * min u v \<le> (1 - a) * v"
    using assms(1) b by (simp_all add: mult_left_mono)
  then have "a * min u v + (1 - a) * min u v \<le> a * u + (1 - a) * v" by (rule add_mono)
  then show "min u v \<le> a * u + (1 - a) * v" by (simp add: algebra_simps)
  have "a * u \<le> a * max u v" "(1 - a) * v \<le> (1 - a) * max u v"
    using assms(1) b by (simp_all add: mult_left_mono)
  then have "a * u + (1 - a) * v \<le> a * max u v + (1 - a) * max u v" by (rule add_mono)
  then show "a * u + (1 - a) * v \<le> max u v" by (simp add: algebra_simps)
qed

lemma interpolate_row_convex:
  assumes "0 \<le> a" "a \<le> 1" "i < length xr" "length xr = length xh"
  shows "interpolate_row a xr xh ! i = a * (xr ! i) + (1 - a) * (xh ! i) \<and>
         min (xr ! i) (xh ! i) \<le> interpolate_row a xr xh ! i \<and>
         interpolate_row a xr xh ! i \<le> max (xr ! i) (xh ! i)"
proof -
  have e: "interpolate_row a xr xh ! i = a * (xr ! i) + (1 - a) * (xh ! i)"
    using assms by (simp add: interpolate_row_def mult.commute)
  show ?thesis unfolding e using convex_between[OF assms(1,2)] by simp
qed

lemma interpolated_batch_nth:
  assumes "n < length x" "length alpha = length x" "length x_hat = length x"
  shows "interpolated_batch alpha x x_hat ! n = interpolate_row (alpha ! n) (x ! n) (x_hat ! n)"
  using assms by (simp add: interpolated_batch_def)

lemma interpolated_gradients_nth:
  assumes "n < length x" "length alpha = length x" "length x_hat = length x" "length context = length x"
  shows "interpolated_gradients cg alpha x x_hat context ! n =
         cg (interpolate_row (alpha ! n) (x ! n) (x_hat ! n)) (context ! n)"
  using assms by (simp add: interpolated_gradients_def interpolated_batch_def)

lemma length_interpolated_gradients:
  assumes "length alpha = length x" "length x_hat = length x" "length context = length x"
  shows "length (interpolated_gradients cg alpha x x_hat context) = length x"
  using assms by (simp add: interpolated_gradients_def interpolated_batch_def)

text \<open>
  Claim C4. On a non-empty batch the penalty is a number \<open>p \<ge> 0\<close>; it is 0 exactly
  when every per-example gradient norm at the interpolated input is at most 1, so norms
  below 1 are never penalised. The critic is differentiated at the interpolated input
  paired with the unchanged context row, and for a weight in \<open>[0, 1]\<close> every
  coordinate of the interpolated input is the convex combination of the real and the
  generated coordinate, hence between the two.
\<close>

theorem gradient_penalty_one_sided:
  assumes "x \<noteq> []"
      and "length alpha = length x" and "length context = length x"
      and "list_all2 (\<lambda>xr xh. length xr = length xh) x x_hat"
  shows "\<exists>p. gradient_penalty critic_grad alpha x x_hat context = Inr (Some p) \<and> 0 \<le> p \<and>
     (p = 0 \<longleftrightarrow>
        (\<forall>n<length x. l2_norm (critic_grad (interpolate_row (alpha ! n) (x ! n) (x_hat ! n))
                                          (context ! n)) \<le> 1)) \<and>
     (\<forall>n<length x. \<forall>i<length (x ! n). 0 \<le> alpha ! n \<and> alpha ! n \<le> 1 \<longrightarrow>
        interpolate_row (alpha ! n) (x ! n) (x_hat ! n) ! i =
          alpha ! n * (x ! n ! i) + (1 - alpha ! n) * (x_hat ! n ! i) \<and>
        min (x ! n ! i) (x_hat ! n ! i) \<le> interpolate_row (alpha ! n) (x ! n) (x_hat ! n) ! i \<and>
        interpolate_row (alpha ! n) (x ! n) (x_hat ! n) ! i \<le> max (x ! n ! i) (x_hat ! n ! i))"
proof -
  let ?gs = "interpolated_gradients critic_grad alpha x x_hat context"
  have lh: "length x_hat = length x" using assms(4) by (simp add: list_all2_lengthD)
  have lg: "length ?gs = length x"
    by (rule length_interpolated_gradients[OF assms(2) lh assms(3)])
  then have ne: "?gs \<noteq> []" using assms(1) by auto
  from mean_relu[OF ne] obtain p where
    m: "tensor_mean (map (\<lambda>g. relu (l2_norm g - 1)) ?gs) = Some p" and p0: "0 \<le> p"
    and pz: "p = 0 \<longleftrightarrow> (\<forall>g\<in>set ?gs. l2_norm g \<le> 1)"
    by blast
  have r: "gradient_penalty critic_grad alpha x x_hat context = Inr (Some p)"
    using assms m by (simp add: gradient_penalty_def)
  have "(\<forall>g\<in>set ?gs. l2_norm g \<le> 1) \<longleftrightarrow> (\<forall>n<length ?gs. l2_norm (?gs ! n) \<le> 1)"
    by (simp add: all_set_conv_all_nth)
  also have "\<dots> \<longleftrightarrow> (\<forall>n<length x. l2_norm (critic_grad (interpolate_row (alpha ! n) (x ! n) (x_hat ! n))
                                          (context ! n)) \<le> 1)"
    using lg interpolated_gradients_nth[OF _ assms(2) lh assms(3)] by simp
  finally have z: "(\<forall>g\<in>set ?gs. l2_norm g \<le> 1) \<longleftrightarrow>
      (\<forall>n<length x. l2_norm (critic_grad (interpolate_row (alpha ! n) (x ! n) (x_hat ! n))
                                          (context ! n)) \<le> 1)" .
  have c: "interpolate_row (alpha ! n) (x ! n) (x_hat ! n) ! i =
          alpha ! n * (x ! n ! i) + (1 - alpha ! n) * (x_hat ! n ! i) \<and>
        min (x ! n ! i) (x_hat ! n ! i) \<le> interpolate_row (alpha ! n) (x ! n) (x_hat ! n) ! i \<and>
        interpolate_row (alpha ! n) (x ! n) (x_hat ! n) ! i \<le> max (x ! n ! i) (x_hat ! n ! i)"
    if "n < length x" "i < length (x ! n)" "0 \<le> alpha ! n" "alpha ! n \<le> 1" for n i
  proof -
    have "length (x ! n) = length (x_hat ! n)" by (rule list_all2_nthD[OF assms(4) that(1)])
    then show ?thesis using interpolate_row_convex[OF that(3,4,2)] by blast
  qed
  show ?thesis using r p0 pz z c by blast
qed

lemma l2_norm_3_4: "l2_norm [3 / 5, 4 / 5] = 1"
  by (simp add: l2_norm_def power2_eq_square)

theorem gradient_penalty_one_sided_witness:
  "[[0, 0 :: real]] \<noteq> [] \<and> length [1 / 2 :: real] = length [[0, 0 :: real]] \<and>
   length [[] :: real list] = length [[0, 0 :: real]] \<and>
   list_all2 (\<lambda>xr xh. length xr = length xh) [[0, 0 :: real]] [[1, 1 :: real]] \<and>
   gradient_penalty (\<lambda>xi c. [3 / 5, 4 / 5]) [1 / 2] [[0, 0]] [[1, 1]] [[]] = Inr (Some 0) \<and>
   interpolate_row (1 / 2) [0, 0] [1, 1] ! 0 = 1 / 2"
proof -
  have h1: "[[0, 0 :: real]] \<noteq> []" by simp
  have h2: "length [1 / 2 :: real] = length [[0, 0 :: real]]" by simp
  have h3: "length [[] :: real list] = length [[0, 0 :: real]]" by simp
  have h4: "list_all2 (\<lambda>xr xh. length xr = length xh) [[0, 0 :: real]] [[1, 1 :: real]]" by simp
  from gradient_penalty_one_sided[OF h1 h2 h3 h4, of "\<lambda>xi c. [3 / 5, 4 / 5]"] obtain p where
    r: "gradient_penalty (\<lambda>xi c. [3 / 5, 4 / 5]) [1 / 2] [[0, 0]] [[1, 1]] [[]] = Inr (Some p)"
    and z: "p = 0 \<longleftrightarrow> (\<forall>n<length [[0, 0 :: real]]. l2_norm [3 / 5, 4 / 5] \<le> 1)"
    and c: "\<forall>n<length [[0, 0 :: real]]. \<forall>i<length ([[0, 0 :: real]] ! n).
        0 \<le> [1 / 2 :: real] ! n \<and> [1 / 2 :: real] ! n \<le> 1 \<longrightarrow>
        interpolate_row ([1 / 2] ! n) ([[0, 0]] ! n) ([[1, 1]] ! n) ! i =
          [1 / 2] ! n * ([[0, 0]] ! n ! i) + (1 - [1 / 2] ! n) * ([[1, 1]] ! n ! i) \<and>
        min ([[0, 0]] ! n ! i) ([[1, 1]] ! n ! i) \<le> interpolate_row ([1 / 2] ! n) ([[0, 0]] ! n) ([[1, 1]] ! n) ! i \<and>
        interpolate_row ([1 / 2] ! n) ([[0, 0]] ! n) ([[1, 1]] ! n) ! i \<le> max ([[0, 0]] ! n ! i) ([[1, 1]] ! n ! i)"
    by blast
  have "p = 0" using z by (simp add: l2_norm_3_4)
  moreover have "interpolate_row (1 / 2) [0, 0] [1, 1] ! 0 = 1 / 2"
    using c by simp
  ultimately show ?thesis using r by simp
qed

section \<open>The optimistic Adam update\<close>

lemma length_tensor_ops [simp]:
  "length (zeros_like t) = length t"
  "length (tensor_mul a c) = length a"
  "length (tensor_sqrt_add a c) = length a"
  "length (tensor_add a c b) = min (length a) (length b)"
  "length (tensor_max a b) = min (length a) (length b)"
  "length (tensor_addcmul a c b d) = min (length a) (min (length b) (length d))"
  "length (tensor_addcdiv a c b d) = min (length a) (min (length b) (length d))"
  by (simp_all add: zeros_like_def tensor_mul_def tensor_sqrt_add_def tensor_add_def
      tensor_max_def tensor_addcmul_def tensor_addcdiv_def)

lemma nth_tensor_ops:
  "i < length t \<Longrightarrow> zeros_like t ! i = 0"
  "i < length a \<Longrightarrow> tensor_mul a c ! i = a ! i * c"
  "i < length a \<Longrightarrow> tensor_sqrt_add a c ! i = sqrt (a ! i) + c"
  "i < length a \<Longrightarrow> i < length b \<Longrightarrow> tensor_add a c b ! i = a ! i + c * b ! i"
  "i < length a \<Longrightarrow> i < length b \<Longrightarrow> tensor_max a b ! i = max (a ! i) (b ! i)"
  "i < length a \<Longrightarrow> i < length b \<Longrightarrow> i < length d \<Longrightarrow>
     tensor_addcmul a c b d ! i = a ! i + c * b ! i * d ! i"
  "i < length a \<Longrightarrow> i < length b \<Longrightarrow> i < length d \<Longrightarrow>
     tensor_addcdiv a c b d ! i = a ! i + c * (b ! i / d ! i)"
  by (simp_all add: zeros_like_def tensor_mul_def tensor_sqrt_add_def tensor_add_def
      tensor_max_def tensor_addcmul_def tensor_addcdiv_def)

lemma OAdam_defaults_Inr:
  assumes "OAdam_defaults lr0 bs eps0 wd ams = Inr grp"
  shows "grp = \<lparr>lr = lr0, betas = bs, eps = eps0, weight_decay = wd, amsgrad = ams\<rparr>"
    and "0 \<le> lr0" and "0 \<le> eps0" and "0 \<le> fst bs" and "fst bs < 1" and "0 \<le> snd bs" and "snd bs < 1"
  using assms by (auto simp: OAdam_defaults_def split: if_splits)

lemma bias_correction_pos:
  fixes b :: real
  assumes "0 \<le> b" "b < 1"
  shows "0 < 1 - b ^ (Suc n)"
proof -
  have "b ^ Suc n \<le> b ^ 1" using assms by (intro power_decreasing) simp_all
  then show ?thesis using assms by simp
qed

lemma initial_state_ok: "state_ok (amsgrad grp) (length d) (initial_state grp d)"
  by (simp add: state_ok_def initial_state_def zeros_like_def list_all_iff)

text \<open>
  Claim C6, as the code has it. For defaults that pass the checks of \<^verbatim>\<open>OAdam.__init__\<close>, with
  \<open>eps > 0\<close> and a parameter with a dense gradient \<open>g\<close> of its shape, one update
  succeeds, counts the step \<open>t\<close>, and with
  \<open>step_size = lr * sqrt (1 - beta2 ^ t) / (1 - beta1 ^ t)\<close> it first \<^emph>\<open>adds\<close>
  \<open>step_size * m / (sqrt v + eps)\<close> computed from the moments before the update, then
  updates the moments with the gradient (to which \<open>weight_decay * p\<close> has been added),
  then subtracts \<open>2 * step_size * m' / (sqrt v' + eps)\<close> computed from the updated
  moments (with \<^verbatim>\<open>amsgrad\<close> the running maximum of the second moment takes the
  place of \<open>v'\<close>). Both denominators are positive.
\<close>

theorem oadam_param_update:
  assumes init: "OAdam_defaults lr0 (beta1, beta2) eps0 wd ams = Inr grp"
      and epos: "0 < eps0"
      and gr: "grad p = Dense g"
      and lg: "length g = length (data p)"
      and ok: "state_ok ams (length (data p)) (get_state grp p)"
  shows "\<exists>p' st'. oadam_param grp p = Inr p' \<and> state p' = Some st' \<and>
      state_step st' = state_step (get_state grp p) + 1 \<and>
      length (data p') = length (data p) \<and>
      length (exp_avg st') = length (data p) \<and>
      length (exp_avg_sq st') = length (data p) \<and>
      (\<forall>i<length (data p).
         exp_avg st' ! i =
           beta1 * exp_avg (get_state grp p) ! i + (1 - beta1) * (g ! i + wd * data p ! i) \<and>
         exp_avg_sq st' ! i =
           beta2 * exp_avg_sq (get_state grp p) ! i + (1 - beta2) * (g ! i + wd * data p ! i) ^ 2 \<and>
         0 < sqrt (exp_avg_sq (get_state grp p) ! i) + eps0 \<and>
         0 < sqrt (denominator_moment grp (get_state grp p) (exp_avg_sq st') i) + eps0 \<and>
         data p' ! i = data p ! i
           + step_size_at grp (state_step st') *
               (exp_avg (get_state grp p) ! i / (sqrt (exp_avg_sq (get_state grp p) ! i) + eps0))
           - 2 * step_size_at grp (state_step st') *
               (exp_avg st' ! i /
                 (sqrt (denominator_moment grp (get_state grp p) (exp_avg_sq st') i) + eps0)))"
proof -
  let ?st = "get_state grp p"
  let ?n = "length (data p)"
  let ?t = "state_step ?st + 1"
  let ?g = "if wd \<noteq> 0 then tensor_add g wd (data p) else g"
  let ?ss = "lr0 * sqrt (1 - beta2 ^ ?t) / (1 - beta1 ^ ?t)"
  let ?p1 = "tensor_addcdiv (data p) ?ss (exp_avg ?st) (tensor_sqrt_add (exp_avg_sq ?st) eps0)"
  let ?m = "tensor_add (tensor_mul (exp_avg ?st) beta1) (1 - beta1) ?g"
  let ?v = "tensor_addcmul (tensor_mul (exp_avg_sq ?st) beta2) (1 - beta2) ?g ?g"
  let ?vmax = "case max_exp_avg_sq ?st of
                 Some mx \<Rightarrow> if ams then Some (tensor_max mx ?v) else Some mx
               | None \<Rightarrow> None"
  let ?denom = "case ?vmax of
                  Some mx \<Rightarrow> if ams then tensor_sqrt_add mx eps0 else tensor_sqrt_add ?v eps0
                | None \<Rightarrow> tensor_sqrt_add ?v eps0"
  let ?p2 = "tensor_addcdiv ?p1 (- 2 * ?ss) ?m ?denom"
  let ?st' = "\<lparr>state_step = ?t, exp_avg = ?m, exp_avg_sq = ?v, max_exp_avg_sq = ?vmax\<rparr>"
  let ?p' = "\<lparr>data = ?p2, grad = Dense ?g, state = Some ?st'\<rparr>"
  note I = OAdam_defaults_Inr[OF init]
  have grp: "lr grp = lr0" "betas grp = (beta1, beta2)" "eps grp = eps0"
    "weight_decay grp = wd" "amsgrad grp = ams"
    using I(1) by simp_all
  have b1: "0 \<le> beta1" "beta1 < 1" and b2: "0 \<le> beta2" "beta2 < 1"
    using I(4-7) by simp_all
  have bc1: "0 < 1 - beta1 ^ ?t" using bias_correction_pos[OF b1] by simp
  have bc2: "0 < 1 - beta2 ^ ?t" using bias_correction_pos[OF b2] by simp
  have lm: "length (exp_avg ?st) = ?n" and lv: "length (exp_avg_sq ?st) = ?n"
    and vnn: "list_all (\<lambda>v. 0 \<le> v) (exp_avg_sq ?st)"
    using ok by (simp_all add: state_ok_def)
  have mx: "ams \<Longrightarrow> \<exists>mx. max_exp_avg_sq ?st = Some mx \<and> length mx = ?n \<and> list_all (\<lambda>v. 0 \<le> v) mx"
    using ok by (auto simp: state_ok_def split: option.splits)
  have key: "\<not> (ams \<and> max_exp_avg_sq ?st = None)" using mx by auto
  have run: "oadam_param grp p = Inr ?p'"
    using gr key bc1 bc2
    by (simp add: oadam_param_def oadam_dense_def grp Let_def cong: option.case_cong if_cong)
  have lgg: "length ?g = ?n" using lg by simp
  have gi: "?g ! i = g ! i + wd * data p ! i" if "i < ?n" for i
    using that lg by (simp add: nth_tensor_ops)
  have lmm: "length ?m = ?n" using lm lgg by simp
  have lvv: "length ?v = ?n" using lv lgg by simp
  have lden: "length ?denom = ?n"
    using lvv mx by (cases ams) (auto split: option.splits)
  have lp1: "length ?p1 = ?n" using lm lv by simp
  have lp2: "length ?p2 = ?n" using lp1 lmm lden by simp
  have ss: "step_size_at grp ?t = ?ss" by (simp add: step_size_at_def grp)
  have mi: "?m ! i = beta1 * exp_avg ?st ! i + (1 - beta1) * (g ! i + wd * data p ! i)"
    if "i < ?n" for i
    using that lm lgg gi[OF that] by (simp add: nth_tensor_ops mult.commute del: length_tensor_ops(4))
  have vi: "?v ! i = beta2 * exp_avg_sq ?st ! i + (1 - beta2) * (g ! i + wd * data p ! i) ^ 2"
    if "i < ?n" for i
    using that lv lgg gi[OF that]
    by (simp add: nth_tensor_ops mult.commute power2_eq_square mult.assoc)
  have vinn: "0 \<le> ?v ! i" if "i < ?n" for i
  proof -
    have "0 \<le> exp_avg_sq ?st ! i" using vnn lv that by (simp add: list_all_length)
    then show ?thesis unfolding vi[OF that] using b2 by simp
  qed
  have di: "?denom ! i = sqrt (denominator_moment grp ?st ?v i) + eps0" if "i < ?n" for i
    using that lvv mx
    by (cases ams) (auto simp: denominator_moment_def grp nth_tensor_ops split: option.splits)
  have dpos0: "0 < sqrt (exp_avg_sq ?st ! i) + eps0" if "i < ?n" for i
  proof -
    have "0 \<le> exp_avg_sq ?st ! i" using vnn lv that by (simp add: list_all_length)
    then show ?thesis using epos by (simp add: add_nonneg_pos)
  qed
  have dpos: "0 < sqrt (denominator_moment grp ?st ?v i) + eps0" if "i < ?n" for i
  proof -
    have "0 \<le> denominator_moment grp ?st ?v i"
      using vinn[OF that] by (auto simp: denominator_moment_def split: option.splits)
    then show ?thesis using epos by (simp add: add_nonneg_pos)
  qed
  have p1i: "?p1 ! i = data p ! i + ?ss * (exp_avg ?st ! i / (sqrt (exp_avg_sq ?st ! i) + eps0))"
    if "i < ?n" for i
    using that lm lv by (simp add: nth_tensor_ops)
  have p2i: "?p2 ! i = ?p1 ! i - 2 * ?ss * (?m ! i / ?denom ! i)" if "i < ?n" for i
    using that lp1 lmm lden by (simp add: nth_tensor_ops)
  have all: "exp_avg ?st' ! i =
           beta1 * exp_avg ?st ! i + (1 - beta1) * (g ! i + wd * data p ! i) \<and>
         exp_avg_sq ?st' ! i =
           beta2 * exp_avg_sq ?st ! i + (1 - beta2) * (g ! i + wd * data p ! i) ^ 2 \<and>
         0 < sqrt (exp_avg_sq ?st ! i) + eps0 \<and>
         0 < sqrt (denominator_moment grp ?st (exp_avg_sq ?st') i) + eps0 \<and>
         data ?p' ! i = data p ! i
           + step_size_at grp (state_step ?st') * (exp_avg ?st ! i / (sqrt (exp_avg_sq ?st ! i) + eps0))
           - 2 * step_size_at grp (state_step ?st') *
               (exp_avg ?st' ! i / (sqrt (denominator_moment grp ?st (exp_avg_sq ?st') i) + eps0))"
    if "i < ?n" for i
    using mi[OF that] vi[OF that] dpos0[OF that] dpos[OF that] p2i[OF that] p1i[OF that] di[OF that] ss
    by simp
  have "state ?p' = Some ?st' \<and> state_step ?st' = state_step ?st + 1 \<and>
      length (data ?p') = ?n \<and> length (exp_avg ?st') = ?n \<and> length (exp_avg_sq ?st') = ?n"
    using lp2 lmm lvv by simp
  then show ?thesis using run all by blast
qed

text \<open>
  The first update has the opposite sign of the one the specification words: from the
  parameter 0 with moments 1 and 1 the code moves to \<open>1/2\<close>, the worded update to
  \<open>-1/2\<close>.
\<close>

theorem oadam_first_update_counterexample:
  "OAdam_defaults 1 (0, 0) 1 0 False = Inr example_group \<and>
   oadam_param example_group example_slot =
     Inr \<lparr>data = [1 / 2], grad = Dense [0],
          state = Some \<lparr>state_step = 2, exp_avg = [0], exp_avg_sq = [0], max_exp_avg_sq = None\<rparr>\<rparr> \<and>
   claimed_update_data example_group example_slot [0] = [- 1 / 2]"
  by (simp add: OAdam_defaults_def oadam_param_def oadam_dense_def example_group_def example_slot_def
      get_state_def claimed_update_data_def tensor_addcdiv_def tensor_sqrt_add_def tensor_add_def
      tensor_mul_def tensor_addcmul_def Let_def)

theorem oadam_param_update_witness:
  "OAdam_defaults 1 (0, 0) 1 0 False = Inr example_group \<and> (0 :: real) < 1 \<and>
   grad example_slot = Dense [0] \<and> length [0 :: real] = length (data example_slot) \<and>
   state_ok False (length (data example_slot)) (get_state example_group example_slot) \<and>
   (\<exists>p' st'. oadam_param example_group example_slot = Inr p' \<and> state p' = Some st' \<and>
      state_step st' = 2 \<and> exp_avg st' ! 0 = 0 \<and> exp_avg_sq st' ! 0 = 0 \<and>
      data p' ! 0 = 1 / 2)"
proof -
  have h1: "OAdam_defaults 1 (0, 0) 1 0 False = Inr example_group"
    by (simp add: OAdam_defaults_def example_group_def)
  have h2: "(0 :: real) < 1" by simp
  have h3: "grad example_slot = Dense [0]" by (simp add: example_slot_def)
  have h4: "length [0 :: real] = length (data example_slot)" by (simp add: example_slot_def)
  have h5: "state_ok False (length (data example_slot)) (get_state example_group example_slot)"
    by (simp add: state_ok_def example_slot_def get_state_def)
  have gs: "get_state example_group example_slot =
      \<lparr>state_step = 1, exp_avg = [1], exp_avg_sq = [1], max_exp_avg_sq = None\<rparr>"
    by (simp add: example_slot_def get_state_def)
  from oadam_param_update[OF h1 h2 h3 h4 h5] obtain p' st' where
    r: "oadam_param example_group example_slot = Inr p'" "state p' = Some st'"
    and t: "state_step st' = state_step (get_state example_group example_slot) + 1"
    and a: "\<forall>i<length (data example_slot).
         exp_avg st' ! i =
           0 * exp_avg (get_state example_group example_slot) ! i +
           (1 - 0) * ([0] ! i + 0 * data example_slot ! i) \<and>
         exp_avg_sq st' ! i =
           0 * exp_avg_sq (get_state example_group example_slot) ! i +
           (1 - 0) * ([0] ! i + 0 * data example_slot ! i) ^ 2 \<and>
         0 < sqrt (exp_avg_sq (get_state example_group example_slot) ! i) + 1 \<and>
         0 < sqrt (denominator_moment example_group (get_state example_group example_slot) (exp_avg_sq st') i) + 1 \<and>
         data p' ! i = data example_slot ! i
           + step_size_at example_group (state_step st') *
               (exp_avg (get_state example_group example_slot) ! i /
                 (sqrt (exp_avg_sq (get_state example_group example_slot) ! i) + 1))
           - 2 * step_size_at example_group (state_step st') *
               (exp_avg st' ! i /
                 (sqrt (denominator_moment example_group (get_state example_group example_slot)
                    (exp_avg_sq st') i) + 1))"
    by blast
  have t2: "state_step st' = 2" using t by (simp add: gs)
  have ss: "step_size_at example_group 2 = 1" by (simp add: step_size_at_def example_group_def)
  have d: "data example_slot = [0]" by (simp add: example_slot_def)
  from a have "exp_avg st' ! 0 = 0 \<and> exp_avg_sq st' ! 0 = 0 \<and> data p' ! 0 = 1 / 2"
    by (simp add: gs d t2 ss denominator_moment_def)
  then show ?thesis using h1 h3 h4 h5 r t2 by simp
qed

section \<open>Errors of the optimizer\<close>

lemma map_rows_Inl:
  "x \<in> set xs \<Longrightarrow> f x = Inl e \<Longrightarrow> \<exists>e'. map_rows f xs = Inl e'"
  by (induction xs) (auto split: sum.splits)

lemma oadam_param_sparse:
  "grad p = Sparse t \<Longrightarrow> oadam_param grp p = Inl (RuntimeError
     ''Adam does not support sparse gradients, please consider SparseAdam instead'')"
  by (simp add: oadam_param_def)

lemma OAdam_step_sparse:
  assumes "(grp, ps) \<in> set param_groups" "p \<in> set ps" "grad p = Sparse t"
  shows "\<exists>e. OAdam_step param_groups = Inl e"
proof -
  from map_rows_Inl[of p ps "oadam_param grp", OF assms(2) oadam_param_sparse[OF assms(3)]]
  obtain e where "map_rows (oadam_param grp) ps = Inl e" by blast
  then have "oadam_group (grp, ps) = Inl e" by (simp add: oadam_group_def)
  from map_rows_Inl[of "(grp, ps)" param_groups oadam_group, OF assms(1) this]
  show ?thesis by (simp add: OAdam_step_def)
qed

lemma OAdam_defaults_cases:
  "(lr0 < 0 \<or> eps0 < 0 \<or> beta1 < 0 \<or> 1 \<le> beta1 \<or> beta2 < 0 \<or> 1 \<le> beta2) \<and>
     (\<exists>msg. OAdam_defaults lr0 (beta1, beta2) eps0 wd ams = Inl (ValueError msg)) \<or>
   (0 \<le> lr0 \<and> 0 \<le> eps0 \<and> 0 \<le> beta1 \<and> beta1 < 1 \<and> 0 \<le> beta2 \<and> beta2 < 1) \<and>
     OAdam_defaults lr0 (beta1, beta2) eps0 wd ams =
       Inr \<lparr>lr = lr0, betas = (beta1, beta2), eps = eps0, weight_decay = wd, amsgrad = ams\<rparr>"
  by (auto simp: OAdam_defaults_def)

lemma OAdam_init_bad:
  assumes "lr0 < 0 \<or> eps0 < 0 \<or> beta1 < 0 \<or> 1 \<le> beta1 \<or> beta2 < 0 \<or> 1 \<le> beta2"
  shows "\<exists>msg. OAdam_init b q lr0 (beta1, beta2) eps0 wd ams = Inl (ValueError msg)"
  using assms OAdam_defaults_cases[of lr0 eps0 beta1 beta2 wd ams]
  by (auto simp: OAdam_init_def)

lemma OAdam_init_ok:
  assumes "0 \<le> lr0 \<and> 0 \<le> eps0 \<and> 0 \<le> beta1 \<and> beta1 < 1 \<and> 0 \<le> beta2 \<and> beta2 < 1"
  shows "OAdam_init b q lr0 (beta1, beta2) eps0 wd ams =
     b q \<lparr>lr = lr0, betas = (beta1, beta2), eps = eps0, weight_decay = wd, amsgrad = ams\<rparr>"
  using assms OAdam_defaults_cases[of lr0 eps0 beta1 beta2 wd ams]
  by (auto simp: OAdam_init_def)

text \<open>
  Claim C7, as the code has it. The constructor raises a \<^verbatim>\<open>ValueError\<close> of its own
  when the learning rate is negative, epsilon is negative, or a decay coefficient is
  outside \<open>[0, 1)\<close>; otherwise it is the base constructor applied to the parameters and
  the defaults with the values given. So it raises a \<^verbatim>\<open>ValueError\<close> exactly when a
  hyperparameter is out of these ranges or the base constructor raises one, and it returns
  exactly when the hyperparameters are in range and the base constructor returns; with
  the library's base constructor on a list of parameters that is: exactly when the
  hyperparameters are in range and the list is not empty. An update of a parameter with a
  sparse gradient raises the \<^verbatim>\<open>RuntimeError\<close>, and so a step over parameter groups that
  hold such a parameter raises.
\<close>

theorem OAdam_errors:
  fixes base_init :: "'ps \<Rightarrow> param_group \<Rightarrow> error + 'opt"
  shows
  "((lr0 < 0 \<or> eps0 < 0 \<or> beta1 < 0 \<or> 1 \<le> beta1 \<or> beta2 < 0 \<or> 1 \<le> beta2) \<longrightarrow>
      (\<exists>msg. OAdam_init base_init params lr0 (beta1, beta2) eps0 wd ams = Inl (ValueError msg))) \<and>
   ((0 \<le> lr0 \<and> 0 \<le> eps0 \<and> 0 \<le> beta1 \<and> beta1 < 1 \<and> 0 \<le> beta2 \<and> beta2 < 1) \<longrightarrow>
      OAdam_init base_init params lr0 (beta1, beta2) eps0 wd ams =
        base_init params
          \<lparr>lr = lr0, betas = (beta1, beta2), eps = eps0, weight_decay = wd, amsgrad = ams\<rparr>) \<and>
   ((\<exists>msg. OAdam_init base_init params lr0 (beta1, beta2) eps0 wd ams = Inl (ValueError msg)) \<longleftrightarrow>
      (lr0 < 0 \<or> eps0 < 0 \<or> beta1 < 0 \<or> 1 \<le> beta1 \<or> beta2 < 0 \<or> 1 \<le> beta2 \<or>
       (\<exists>msg. base_init params
          \<lparr>lr = lr0, betas = (beta1, beta2), eps = eps0, weight_decay = wd, amsgrad = ams\<rparr> =
            Inl (ValueError msg)))) \<and>
   ((\<exists>opt. OAdam_init base_init params lr0 (beta1, beta2) eps0 wd ams = Inr opt) \<longleftrightarrow>
      (0 \<le> lr0 \<and> 0 \<le> eps0 \<and> 0 \<le> beta1 \<and> beta1 < 1 \<and> 0 \<le> beta2 \<and> beta2 < 1 \<and>
       (\<exists>opt. base_init params
          \<lparr>lr = lr0, betas = (beta1, beta2), eps = eps0, weight_decay = wd, amsgrad = ams\<rparr> =
            Inr opt))) \<and>
   ((\<exists>msg. OAdam_init Optimizer_init slots lr0 (beta1, beta2) eps0 wd ams = Inl (ValueError msg)) \<longleftrightarrow>
      (lr0 < 0 \<or> eps0 < 0 \<or> beta1 < 0 \<or> 1 \<le> beta1 \<or> beta2 < 0 \<or> 1 \<le> beta2 \<or> slots = [])) \<and>
   (OAdam_init Optimizer_init slots lr0 (beta1, beta2) eps0 wd ams =
        Inr [(\<lparr>lr = lr0, betas = (beta1, beta2), eps = eps0, weight_decay = wd, amsgrad = ams\<rparr>,
              slots)] \<longleftrightarrow>
      (0 \<le> lr0 \<and> 0 \<le> eps0 \<and> 0 \<le> beta1 \<and> beta1 < 1 \<and> 0 \<le> beta2 \<and> beta2 < 1 \<and> slots \<noteq> [])) \<and>
   (grad p = Sparse t \<longrightarrow>
      oadam_param grp p = Inl (RuntimeError
        ''Adam does not support sparse gradients, please consider SparseAdam instead'')) \<and>
   ((grp, ps) \<in> set param_groups \<and> p \<in> set ps \<and> grad p = Sparse t \<longrightarrow>
      (\<exists>e. OAdam_step param_groups = Inl e))"
proof -
  let ?d = "\<lparr>lr = lr0, betas = (beta1, beta2), eps = eps0, weight_decay = wd, amsgrad = ams\<rparr>"
  let ?bad = "lr0 < 0 \<or> eps0 < 0 \<or> beta1 < 0 \<or> 1 \<le> beta1 \<or> beta2 < 0 \<or> 1 \<le> beta2"
  let ?ok = "0 \<le> lr0 \<and> 0 \<le> eps0 \<and> 0 \<le> beta1 \<and> beta1 < 1 \<and> 0 \<le> beta2 \<and> beta2 < 1"
  have badB: "?bad \<Longrightarrow> \<exists>msg. OAdam_init base_init params lr0 (beta1, beta2) eps0 wd ams = Inl (ValueError msg)"
    by (rule OAdam_init_bad)
  have badO: "?bad \<Longrightarrow> \<exists>msg. OAdam_init Optimizer_init slots lr0 (beta1, beta2) eps0 wd ams = Inl (ValueError msg)"
    by (rule OAdam_init_bad)
  have okB: "?ok \<Longrightarrow> OAdam_init base_init params lr0 (beta1, beta2) eps0 wd ams = base_init params ?d"
    by (rule OAdam_init_ok)
  have okO: "?ok \<Longrightarrow> OAdam_init Optimizer_init slots lr0 (beta1, beta2) eps0 wd ams = Optimizer_init slots ?d"
    by (rule OAdam_init_ok)
  have dich: "?bad \<or> ?ok" by auto
  have excl: "\<not> (?bad \<and> ?ok)" by auto
  have c1: "?bad \<longrightarrow> (\<exists>msg. OAdam_init base_init params lr0 (beta1, beta2) eps0 wd ams = Inl (ValueError msg))"
    using badB by blast
  have c2: "?ok \<longrightarrow> OAdam_init base_init params lr0 (beta1, beta2) eps0 wd ams = base_init params ?d"
    using okB by blast
  have c3: "(\<exists>msg. OAdam_init base_init params lr0 (beta1, beta2) eps0 wd ams = Inl (ValueError msg)) \<longleftrightarrow>
      (?bad \<or> (\<exists>msg. base_init params ?d = Inl (ValueError msg)))"
  proof (cases "?ok")
    case True
    then show ?thesis using okB[OF True] by auto
  next
    case False
    then have "?bad" using dich by blast
    then show ?thesis using badB by blast
  qed
  have c4: "(\<exists>opt. OAdam_init base_init params lr0 (beta1, beta2) eps0 wd ams = Inr opt) \<longleftrightarrow>
      (?ok \<and> (\<exists>opt. base_init params ?d = Inr opt))"
  proof (cases "?ok")
    case True
    then show ?thesis using okB[OF True] by auto
  next
    case False
    then have "?bad" using dich by blast
    from badB[OF this] show ?thesis using False by auto
  qed
  have c5: "(\<exists>msg. OAdam_init Optimizer_init slots lr0 (beta1, beta2) eps0 wd ams = Inl (ValueError msg)) \<longleftrightarrow>
      (?bad \<or> slots = [])"
  proof (cases "?ok")
    case True
    then show ?thesis using okO[OF True] by (auto simp: Optimizer_init_def)
  next
    case False
    then have "?bad" using dich by blast
    then show ?thesis using badO by blast
  qed
  have c6: "OAdam_init Optimizer_init slots lr0 (beta1, beta2) eps0 wd ams = Inr [(?d, slots)] \<longleftrightarrow>
      (?ok \<and> slots \<noteq> [])"
  proof (cases "?ok")
    case True
    then show ?thesis using okO[OF True] by (auto simp: Optimizer_init_def)
  next
    case False
    then have "?bad" using dich by blast
    from badO[OF this] show ?thesis using False by auto
  qed
  have c7: "grad p = Sparse t \<longrightarrow>
      oadam_param grp p = Inl (RuntimeError
        ''Adam does not support sparse gradients, please consider SparseAdam instead'')"
    using oadam_param_sparse by blast
  have c8: "(grp, ps) \<in> set param_groups \<and> p \<in> set ps \<and> grad p = Sparse t \<longrightarrow>
      (\<exists>e. OAdam_step param_groups = Inl e)"
    using OAdam_step_sparse by blast
  show ?thesis
    using c1 c2 c3[unfolded disj_assoc] c4[unfolded conj_assoc] c5[unfolded disj_assoc]
      c6[unfolded conj_assoc] c7 c8
    by (intro conjI)
qed

text \<open>
  A learning rate of 0 is not positive, and the constructor accepts it: on one parameter
  it returns the optimizer.
\<close>

theorem OAdam_zero_learning_rate_counterexample:
  "OAdam_init Optimizer_init [\<lparr>data = [0], grad = NoGrad, state = None\<rparr>]
       0 (9 / 10, 999 / 1000) (1 / 100000000) 0 False =
     Inr [(\<lparr>lr = 0, betas = (9 / 10, 999 / 1000), eps = 1 / 100000000,
            weight_decay = 0, amsgrad = False\<rparr>,
           [\<lparr>data = [0], grad = NoGrad, state = None\<rparr>])]"
  by (simp add: OAdam_init_def OAdam_defaults_def Optimizer_init_def)

theorem OAdam_errors_witness:
  "(\<exists>msg. OAdam_init Optimizer_init [\<lparr>data = [0], grad = NoGrad, state = None\<rparr>]
            (- 1) (9 / 10, 999 / 1000) (1 / 100000000) 0 False = Inl (ValueError msg)) \<and>
   OAdam_init Optimizer_init [\<lparr>data = [0], grad = NoGrad, state = None\<rparr>]
       (1 / 1000) (9 / 10, 999 / 1000) (1 / 100000000) 0 False =
     Inr [(\<lparr>lr = 1 / 1000, betas = (9 / 10, 999 / 1000), eps = 1 / 100000000,
            weight_decay = 0, amsgrad = False\<rparr>,
           [\<lparr>data = [0], grad = NoGrad, state = None\<rparr>])] \<and>
   (\<exists>msg. OAdam_init Optimizer_init []
            (1 / 1000) (9 / 10, 999 / 1000) (1 / 100000000) 0 False = Inl (ValueError msg)) \<and>
   grad \<lparr>data = [0], grad = Sparse [1], state = None\<rparr> = Sparse [1] \<and>
   oadam_param example_group \<lparr>data = [0], grad = Sparse [1], state = None\<rparr> =
     Inl (RuntimeError ''Adam does not support sparse gradients, please consider SparseAdam instead'') \<and>
   (\<exists>e. OAdam_step [(example_group, [\<lparr>data = [0], grad = Sparse [1], state = None\<rparr>])] = Inl e)"
proof -
  let ?q = "\<lparr>data = [0], grad = NoGrad, state = None\<rparr>"
  let ?p = "\<lparr>data = [0], grad = Sparse [1], state = None\<rparr>"
  have g: "grad ?p = Sparse [1]" by simp
  note T1 = OAdam_errors[where base_init = Optimizer_init and params = "[?q]" and slots = "[?q]"
      and ?lr0.0 = "- 1" and ?beta1.0 = "9 / 10" and ?beta2.0 = "999 / 1000" and ?eps0.0 = "1 / 100000000"
      and wd = 0 and ams = False and p = ?p and t = "[1]" and grp = example_group
      and ps = "[?p]" and param_groups = "[(example_group, [?p])]"]
  note T2 = OAdam_errors[where base_init = Optimizer_init and params = "[?q]" and slots = "[?q]"
      and ?lr0.0 = "1 / 1000" and ?beta1.0 = "9 / 10" and ?beta2.0 = "999 / 1000" and ?eps0.0 = "1 / 100000000"
      and wd = 0 and ams = False and p = ?p and t = "[1]" and grp = example_group
      and ps = "[?p]" and param_groups = "[(example_group, [?p])]"]
  note T3 = OAdam_errors[where base_init = Optimizer_init and params = "[]" and slots = "[]"
      and ?lr0.0 = "1 / 1000" and ?beta1.0 = "9 / 10" and ?beta2.0 = "999 / 1000" and ?eps0.0 = "1 / 100000000"
      and wd = 0 and ams = False and p = ?p and t = "[1]" and grp = example_group
      and ps = "[?p]" and param_groups = "[(example_group, [?p])]"]
  have neg: "(- 1 :: real) < 0" by simp
  have v: "0 \<le> (1 / 1000 :: real) \<and> 0 \<le> (1 / 100000000 :: real) \<and> 0 \<le> (9 / 10 :: real) \<and>
      9 / 10 < (1 :: real) \<and> 0 \<le> (999 / 1000 :: real) \<and> 999 / 1000 < (1 :: real)"
    by simp
  have ne: "[?q] \<noteq> []" by simp
  have a: "\<exists>msg. OAdam_init Optimizer_init [?q] (- 1) (9 / 10, 999 / 1000) (1 / 100000000) 0 False =
      Inl (ValueError msg)"
    using T1 neg by blast
  have b: "OAdam_init Optimizer_init [?q] (1 / 1000) (9 / 10, 999 / 1000) (1 / 100000000) 0 False =
     Inr [(\<lparr>lr = 1 / 1000, betas = (9 / 10, 999 / 1000), eps = 1 / 100000000,
            weight_decay = 0, amsgrad = False\<rparr>, [?q])]"
    using T2 v ne by blast
  have c: "\<exists>msg. OAdam_init Optimizer_init [] (1 / 1000) (9 / 10, 999 / 1000) (1 / 100000000) 0 False =
      Inl (ValueError msg)"
    using T3 by blast
  have d: "oadam_param example_group ?p =
     Inl (RuntimeError ''Adam does not support sparse gradients, please consider SparseAdam instead'')"
    using T2 g by blast
  have m: "(example_group, [?p]) \<in> set [(example_group, [?p])] \<and> ?p \<in> set [?p]" by simp
  have e: "\<exists>e. OAdam_step [(example_group, [?p])] = Inl e"
    using T2 g m by blast
  show ?thesis using a b c g d e by (intro conjI)
qed

section \<open>Specifications\<close>

text \<open>
  Claim C8, as the code has it. For every wrapper and every configuration the constructor
  returns: the settings are the arguments as given, except that the sentinel of
  \<^verbatim>\<open>generator_d_noise\<close> is replaced by the generated-output width \<open>d_x\<close>; no value
  is checked against a range.
\<close>

theorem Specifications_init_no_validation:
  "\<exists>spec. Specifications_init w args = Inr spec \<and>
     (spec_settings spec)\<lparr>generator_d_noise := generator_d_noise args\<rparr> = args \<and>
     generator_d_noise (spec_settings spec) =
       (case generator_d_noise args of
          GeneratorDOutput \<Rightarrow>
            NoiseDim (int (length (continuous_vars w) + sum_list (wrapper_cat_dims w)))
        | NoiseDim n \<Rightarrow> NoiseDim n) \<and>
     d_x (spec_data spec) = length (continuous_vars w) + sum_list (wrapper_cat_dims w) \<and>
     d_context (spec_data spec) = length (context_vars w) \<and>
     data_cat_dims (spec_data spec) = wrapper_cat_dims w \<and>
     data_cont_bounds (spec_data spec) = wrapper_cont_bounds w"
  by (cases "generator_d_noise args") (simp_all add: Specifications_init_def Let_def)

text \<open>
  A negative learning rate, a negative dropout rate and a batch size of 0 are stored as
  they are.
\<close>

theorem Specifications_init_counterexample:
  "Specifications_init example_wrapper
     ((default_settings () ''cpu'')\<lparr>critic_lr := - 1, generator_dropout := - 1, batch_size := 0\<rparr>) =
   Inr \<lparr>spec_settings =
          (default_settings () ''cpu'')\<lparr>critic_lr := - 1, generator_dropout := - 1, batch_size := 0,
             generator_d_noise := NoiseDim 3\<rparr>,
        spec_data = \<lparr>d_context = 0, d_x = 3, data_cat_dims = [2], data_cont_bounds = [(0, 1)]\<rparr>\<rparr>"
  by (simp add: Specifications_init_def example_wrapper_def default_settings_def)

section \<open>Resuming from a checkpoint\<close>

lemma py_range_Cons: "a < b \<Longrightarrow> py_range a b = a # py_range (a + 1) b"
  by (simp add: py_range_def upto_rec1)

lemma py_range_Nil: "\<not> a < b \<Longrightarrow> py_range a b = []"
  by (simp add: py_range_def)

text \<open>
  Claim C9, as the code has it. With a load path configured, \<^verbatim>\<open>train\<close> enters the epoch
  loop with the four state dictionaries, the epoch and the step counter of the checkpoint,
  and the first epoch it runs is the checkpoint's own epoch \<open>start_epoch\<close>, followed by
  \<open>start_epoch + 1\<close> and so on up to \<open>max_epochs - 1\<close>.
\<close>

theorem train_resume:
  assumes "load_checkpoint s = Some path" and "path \<noteq> []" and "torch_load path = Some cp"
  shows "\<exists>e. train_setup s torch_load nets = Inr e \<and>
     generator_state (entry_networks e) = generator_state_dict cp \<and>
     opt_generator_state (entry_networks e) = opt_generator_state_dict cp \<and>
     critic_state (entry_networks e) = critic_state_dict cp \<and>
     opt_critic_state (entry_networks e) = opt_critic_state_dict cp \<and>
     start_epoch e = cp_epoch cp \<and>
     step (entry_loop_state e) = cp_step cp \<and>
     train_epochs s e =
       (if cp_epoch cp < max_epochs s
        then cp_epoch cp # py_range (cp_epoch cp + 1) (max_epochs s) else [])"
  using assms
  by (simp add: train_setup_def train_epochs_def entry_loop_state_def py_range_Cons py_range_Nil)

text \<open>From a checkpoint of epoch 3 the loop starts at epoch 3, not at epoch 4.\<close>

theorem train_resume_counterexample:
  "train_setup example_resume_settings example_files fresh_networks =
     Inr \<lparr>entry_networks =
            \<lparr>generator_state = 1, opt_generator_state = 3, critic_state = 2, opt_critic_state = 4\<rparr>,
          start_epoch = 3, entry_step = 41\<rparr> \<and>
   cp_epoch example_checkpoint = 3 \<and>
   hd (train_epochs example_resume_settings
         \<lparr>entry_networks =
            \<lparr>generator_state = 1, opt_generator_state = 3, critic_state = 2, opt_critic_state = (4::nat)\<rparr>,
          start_epoch = 3, entry_step = 41\<rparr>) = 3 \<and>
   hd (train_epochs example_resume_settings
         \<lparr>entry_networks =
            \<lparr>generator_state = 1, opt_generator_state = 3, critic_state = 2, opt_critic_state = (4::nat)\<rparr>,
          start_epoch = 3, entry_step = 41\<rparr>) \<noteq> cp_epoch example_checkpoint + 1"
  by (simp add: train_setup_def example_resume_settings_def example_files_def example_checkpoint_def
      fresh_networks_def default_settings_def train_epochs_def py_range_Cons)

theorem train_resume_witness:
  "load_checkpoint example_resume_settings = Some ''model.pt'' \<and> ''model.pt'' \<noteq> [] \<and>
   example_files ''model.pt'' = Some example_checkpoint \<and>
   (\<exists>e. train_setup example_resume_settings example_files fresh_networks = Inr e \<and>
      generator_state (entry_networks e) = 1 \<and> opt_generator_state (entry_networks e) = 3 \<and>
      critic_state (entry_networks e) = 2 \<and> opt_critic_state (entry_networks e) = 4 \<and>
      start_epoch e = 3 \<and> step (entry_loop_state e) = 41 \<and>
      train_epochs example_resume_settings e = 3 # py_range 4 1000)"
proof -
  have h1: "load_checkpoint example_resume_settings = Some ''model.pt''"
    by (simp add: example_resume_settings_def)
  have h2: "''model.pt'' \<noteq> []" by simp
  have h3: "example_files ''model.pt'' = Some example_checkpoint"
    by (simp add: example_files_def)
  have m: "max_epochs example_resume_settings = 1000"
    by (simp add: example_resume_settings_def default_settings_def)
  from train_resume[where torch_load = example_files and nets = fresh_networks, OF h1 h2 h3]
  obtain e where
    "train_setup example_resume_settings example_files fresh_networks = Inr e"
    "generator_state (entry_networks e) = generator_state_dict example_checkpoint"
    "opt_generator_state (entry_networks e) = opt_generator_state_dict example_checkpoint"
    "critic_state (entry_networks e) = critic_state_dict example_checkpoint"
    "opt_critic_state (entry_networks e) = opt_critic_state_dict example_checkpoint"
    "start_epoch e = cp_epoch example_checkpoint"
    "step (entry_loop_state e) = cp_step example_checkpoint"
    "train_epochs example_resume_settings e =
       (if cp_epoch example_checkpoint < max_epochs example_resume_settings
        then cp_epoch example_checkpoint #
             py_range (cp_epoch example_checkpoint + 1) (max_epochs example_resume_settings)
        else [])"
    by blast
  then show ?thesis using h1 h3 by (simp add: m example_checkpoint_def)
qed

section \<open>The kernel-regression penalty factory\<close>

text \<open>
  Claim C10. Without a wrapper, a missing grid endpoint makes the factory raise the
  unbound-name error, so the default from the data range is never reached; whenever the
  factory returns a closure both endpoints were supplied (hence both were supplied or a
  wrapper was given), and without a wrapper two supplied endpoints are captured as they
  are.
\<close>

theorem kernreg_unbound_name:
  "((x_min = None \<or> x_max = None) \<longrightarrow>
      monotonicity_penalty_kernreg factor h idx_out idx_in x_min x_max (None :: 'l data_wrapper option) =
        Inl (NameError ''x'')) \<and>
   (monotonicity_penalty_kernreg factor h idx_out idx_in x_min x_max (dw :: 'l data_wrapper option) = Inr c \<longrightarrow>
      x_min \<noteq> None \<and> x_max \<noteq> None \<and> ((x_min \<noteq> None \<and> x_max \<noteq> None) \<or> dw \<noteq> None)) \<and>
   (monotonicity_penalty_kernreg factor h idx_out idx_in (Some a) (Some b) (None :: 'l data_wrapper option) =
      Inr \<lparr>kr_factor = factor, kr_h = h, kr_idx_out = idx_out, kr_idx_in = idx_in,
           kr_x_min = a, kr_x_max = b\<rparr>)"
  by (auto simp: monotonicity_penalty_kernreg_def split: option.splits sum.splits)

theorem kernreg_unbound_name_witness:
  "monotonicity_penalty_kernreg 1 (1 / 10) 4 0 None (Some 1) (None :: string data_wrapper option) =
     Inl (NameError ''x'') \<and>
   monotonicity_penalty_kernreg 1 (1 / 10) 4 0 (Some 0) None (None :: string data_wrapper option) =
     Inl (NameError ''x'') \<and>
   monotonicity_penalty_kernreg 1 (1 / 10) 4 0 (Some 0) (Some 1) (None :: string data_wrapper option) =
     Inr \<lparr>kr_factor = 1, kr_h = 1 / 10, kr_idx_out = 4, kr_idx_in = 0, kr_x_min = 0, kr_x_max = 1\<rparr> \<and>
   (Some 0 :: real option) \<noteq> None \<and> (Some 1 :: real option) \<noteq> None"
proof -
  have a: "monotonicity_penalty_kernreg 1 (1 / 10) 4 0 None (Some 1) (None :: string data_wrapper option) =
     Inl (NameError ''x'')"
    using kernreg_unbound_name[where x_min = None and x_max = "Some 1"
        and 'l = string and factor = 1 and h = "1 / 10" and idx_out = 4 and idx_in = 0] by simp
  have b: "monotonicity_penalty_kernreg 1 (1 / 10) 4 0 (Some 0) None (None :: string data_wrapper option) =
     Inl (NameError ''x'')"
    using kernreg_unbound_name[where x_min = "Some 0" and x_max = None
        and 'l = string and factor = 1 and h = "1 / 10" and idx_out = 4 and idx_in = 0] by simp
  have c: "monotonicity_penalty_kernreg 1 (1 / 10) 4 0 (Some 0) (Some 1) (None :: string data_wrapper option) =
     Inr \<lparr>kr_factor = 1, kr_h = 1 / 10, kr_idx_out = 4, kr_idx_in = 0, kr_x_min = 0, kr_x_max = 1\<rparr>"
    using kernreg_unbound_name[where a = 0 and b = 1
        and 'l = string and factor = 1 and h = "1 / 10" and idx_out = 4 and idx_in = 0] by simp
  have d: "(Some 0 :: real option) \<noteq> None \<and> (Some 1 :: real option) \<noteq> None"
    using kernreg_unbound_name[where x_min = "Some 0" and x_max = "Some 1" and dw = None
        and 'l = string and factor = 1 and h = "1 / 10" and idx_out = 4 and idx_in = 0
        and c = "\<lparr>kr_factor = 1, kr_h = 1 / 10, kr_idx_out = 4, kr_idx_in = 0, kr_x_min = 0, kr_x_max = 1\<rparr>"] c
    by blast
  show ?thesis using a b c d by blast
qed

text \<open>With the one-statistic example wrapper the squeezed tensor cannot be indexed.\<close>

lemma kernreg_wrapper_scalar_statistics:
  "monotonicity_penalty_kernreg 1 (1 / 10) 1 0 None None (Some example_wrapper) = Inl IndexError"
  by (simp add: monotonicity_penalty_kernreg_def example_wrapper_def squeezed_index_def)

section \<open>Encoding and decoding round trip\<close>

lemma col_labels: "sort (remdups [''red'', ''blue'', ''red'']) = [''blue'', ''red'']"
  by code_simp

lemma std_example: "column_std [0, 1, 2] = 1"
  by (simp add: column_std_def column_mean_def)

lemma fit_example:
  "DataWrapper_init training_frame [''age''] [''color''] [] Map.empty Map.empty = Inr fitted_wrapper"
  by (simp add: DataWrapper_init_def training_frame_def fitted_wrapper_def tensor_column_def
      col_labels std_example column_mean_def Let_def)

lemma red_sorted: "sort (remdups [''red'']) = [''red'']"
  by code_simp

lemma single_row_run:
  "preprocess fitted_wrapper [\<lparr>row_continuous = [0], row_categorical = [''red''], row_context = []\<rparr>]
     = Inr ([[- 100000 / 100001, 1]], [[]]) \<and>
   deprocess fitted_wrapper first_positive [[- 100000 / 100001, 1]] [[]] =
     Inl (RuntimeError ''split_with_sizes'')"
  by (simp add: preprocess_def deprocess_def deprocess_row_def fitted_wrapper_def zscore_def
      get_dummies_def tensor_column_def red_sorted one_hot_def tensor_split_def Let_def)

lemma two_rows_run:
  "preprocess fitted_wrapper
     [\<lparr>row_continuous = [0], row_categorical = [''red''], row_context = []\<rparr>,
      \<lparr>row_continuous = [2], row_categorical = [''blue''], row_context = []\<rparr>]
     = Inr ([[- 100000 / 100001, 0, 1], [100000 / 100001, 1, 0]], [[], []]) \<and>
   deprocess fitted_wrapper first_positive [[- 100000 / 100001, 0, 1], [100000 / 100001, 1, 0]] [[], []] =
     Inr [\<lparr>row_continuous = [0], row_categorical = [Some ''red''], row_context = []\<rparr>,
      \<lparr>row_continuous = [2], row_categorical = [Some ''blue''], row_context = []\<rparr>]"
  by (simp add: preprocess_def deprocess_def deprocess_row_def fitted_wrapper_def zscore_def unscale_def
      get_dummies_def tensor_column_def col_labels[simplified] one_hot_def tensor_split_def Let_def
      sample_code_def multinomial_def first_positive_def lookup_word_def)

lemma unscale_zscore:
  assumes "length x = length m" "length m = length s" "\<forall>v\<in>set s. v \<noteq> 0"
  shows "unscale (zscore x m s) m s = x"
proof (rule nth_equalityI)
  show "length (unscale (zscore x m s) m s) = length x"
    using assms by (simp add: unscale_def zscore_def)
next
  fix i assume "i < length (unscale (zscore x m s) m s)"
  then have i: "i < length x" using assms by (simp add: unscale_def zscore_def)
  then have "s ! i \<in> set s" using assms by simp
  then have nz: "s ! i \<noteq> 0" using assms(3) by blast
  show "unscale (zscore x m s) m s ! i = x ! i"
    using i assms(1,2) nz by (simp add: unscale_def zscore_def)
qed

lemma length_zscore: "length x = length m \<Longrightarrow> length m = length s \<Longrightarrow> length (zscore x m s) = length x"
  by (simp add: zscore_def)

lemma length_one_hot [simp]: "length (one_hot cats v) = length cats"
  by (simp add: one_hot_def)

lemma one_hot_Cons: "one_hot (c # cs) v = (if v = c then 1 else 0) # one_hot cs v"
  by (simp add: one_hot_def)

lemma one_hot_nonneg: "\<not> list_ex (\<lambda>v. v < 0) (one_hot cats v)"
  by (auto simp: one_hot_def list_ex_iff)

lemma one_hot_sum_nonneg: "0 \<le> sum_list (one_hot cats v)"
  by (rule sum_list_nonneg) (auto simp: one_hot_def)

lemma one_hot_sum_pos: "v \<in> set cats \<Longrightarrow> 0 < sum_list (one_hot cats v)"
proof (induction cats)
  case Nil
  then show ?case by simp
next
  case (Cons c cs)
  have nn: "0 \<le> sum_list (one_hot cs v)" by (rule one_hot_sum_nonneg)
  show ?case
  proof (cases "v = c")
    case True
    then show ?thesis using nn by (simp add: one_hot_Cons)
  next
    case False
    then have "v \<in> set cs" using Cons.prems by simp
    then have "0 < sum_list (one_hot cs v)" by (rule Cons.IH)
    then show ?thesis using False by (simp add: one_hot_Cons)
  qed
qed

lemma sample_code_one_hot:
  assumes samp: "\<forall>p. \<not> list_ex (\<lambda>v. v < 0) p \<and> 0 < sum_list p \<longrightarrow> draw p < length p \<and> 0 < p ! draw p"
      and v: "v \<in> set cats"
  shows "sample_code draw (one_hot cats v, [0..<length cats]) = Inr (draw (one_hot cats v)) \<and>
         lookup_word cats (draw (one_hot cats v)) = Some v"
proof -
  let ?p = "one_hot cats v"
  have ok: "\<not> list_ex (\<lambda>v. v < 0) ?p \<and> 0 < sum_list ?p"
    using one_hot_nonneg[of cats v] one_hot_sum_pos[OF v] by simp
  then have d: "draw ?p < length ?p" "0 < ?p ! draw ?p" using samp by blast+
  then have lt: "draw ?p < length cats" by simp
  have "?p ! draw ?p = (if v = cats ! draw ?p then 1 else 0)"
    using lt by (simp add: one_hot_def)
  then have eq: "v = cats ! draw ?p" using d(2) by (simp split: if_splits)
  have m: "multinomial draw ?p = Inr (draw ?p)"
    using ok by (simp add: multinomial_def)
  show ?thesis using m lt eq by (simp add: sample_code_def lookup_word_def)
qed

lemma map_rows_map:
  "\<forall>x\<in>set xs. f (k x) = Inr (h x) \<Longrightarrow> map_rows f (map k xs) = Inr (map h xs)"
  by (induction xs) simp_all

lemma map2_map_map:
  "map2 h (map f xs) (map g xs) = map (\<lambda>x. h (f x) (g x)) xs"
  by (induction xs) simp_all

lemma zip_map_map_same: "zip (map f xs) (map g xs) = map (\<lambda>x. (f x, g x)) xs"
  by (induction xs) simp_all

lemma map_length_one_hot:
  "length cats = length Vs \<Longrightarrow> map length (map2 one_hot Vs cats) = map length Vs"
  by (induction cats Vs rule: list_induct2) simp_all

lemma codes_roundtrip:
  assumes "length cats = length Vs"
      and "\<forall>j<length Vs. cats ! j \<in> set (Vs ! j)"
      and samp: "\<forall>p. \<not> list_ex (\<lambda>v. v < 0) p \<and> 0 < sum_list p \<longrightarrow> draw p < length p \<and> 0 < p ! draw p"
  shows "\<exists>codes. map_rows (sample_code draw)
            (zip (map2 one_hot Vs cats) (map (\<lambda>ls. [0..<length ls]) Vs)) = Inr codes \<and>
          map2 lookup_word Vs codes = map Some cats"
  using assms(1,2)
proof (induction cats Vs rule: list_induct2)
  case Nil
  then show ?case by simp
next
  case (Cons v cats V Vs)
  have v: "v \<in> set V" using Cons.prems by auto
  have rest: "\<forall>j<length Vs. cats ! j \<in> set (Vs ! j)"
  proof (intro allI impI)
    fix j assume "j < length Vs"
    then have "(v # cats) ! Suc j \<in> set ((V # Vs) ! Suc j)" using Cons.prems by auto
    then show "cats ! j \<in> set (Vs ! j)" by simp
  qed
  from Cons.IH[OF rest] obtain codes where
    c: "map_rows (sample_code draw) (zip (map2 one_hot Vs cats) (map (\<lambda>ls. [0..<length ls]) Vs)) = Inr codes"
    "map2 lookup_word Vs codes = map Some cats"
    by blast
  from sample_code_one_hot[OF samp v] have
    s: "sample_code draw (one_hot V v, [0..<length V]) = Inr (draw (one_hot V v))"
       "lookup_word V (draw (one_hot V v)) = Some v"
    by blast+
  show ?case using c s by simp
qed

lemma concat_blocks_empty:
  assumes "length cats = length Vs"
      and "\<forall>j<length Vs. cats ! j \<in> set (Vs ! j)"
      and "concat (map2 one_hot Vs cats) = []"
  shows "cats = []"
proof (rule ccontr)
  assume "cats \<noteq> []"
  then obtain v cs where cats: "cats = v # cs" by (cases cats) auto
  then obtain V Ws where Vs: "Vs = V # Ws" using assms(1) by (cases Vs) auto
  have "v \<in> set V" using assms(2) cats Vs by auto
  then have "V \<noteq> []" by auto
  then have "one_hot V v \<noteq> []" by (simp add: one_hot_def)
  then show False using assms(3) cats Vs by simp
qed

lemma deprocess_row_encoded:
  assumes m1: "length (fst (stds w)) = length (fst (means w))"
      and nz1: "\<forall>v\<in>set (fst (stds w)). v \<noteq> 0"
      and m2: "length (snd (stds w)) = length (snd (means w))"
      and nz2: "\<forall>v\<in>set (snd (stds w)). v \<noteq> 0"
      and cd: "wrapper_cat_dims w = map length (int_to_words w)"
      and cl: "cat_labels w = map (\<lambda>ls. [0..<length ls]) (int_to_words w)"
      and r1: "length (row_continuous r) = length (fst (means w))"
      and r2: "length (row_context r) = length (snd (means w))"
      and r3: "length (row_categorical r) = length (int_to_words w)"
      and r4: "\<forall>j<length (int_to_words w). row_categorical r ! j \<in> set (int_to_words w ! j)"
      and samp: "\<forall>p. \<not> list_ex (\<lambda>v. v < 0) p \<and> 0 < sum_list p \<longrightarrow> draw p < length p \<and> 0 < p ! draw p"
  shows "deprocess_row w draw
           (zscore (row_continuous r) (fst (means w)) (fst (stds w)) @
              concat (map2 one_hot (int_to_words w) (row_categorical r)),
            zscore (row_context r) (snd (means w)) (snd (stds w))) =
         Inr \<lparr>row_continuous = row_continuous r,
              row_categorical = map Some (row_categorical r),
              row_context = row_context r\<rparr>"
proof -
  let ?z = "zscore (row_continuous r) (fst (means w)) (fst (stds w))"
  let ?c = "zscore (row_context r) (snd (means w)) (snd (stds w))"
  let ?bs = "map2 one_hot (int_to_words w) (row_categorical r)"
  have lz: "length ?z = length (fst (means w))"
    using r1 m1 by (simp add: zscore_def)
  have ml: "map length ?bs = wrapper_cat_dims w"
    unfolding cd by (rule map_length_one_hot[OF r3])
  have lb: "length (concat ?bs) = sum_list (wrapper_cat_dims w)"
    unfolding ml[symmetric] by (simp add: length_concat)
  have sp1: "tensor_split [length (fst (means w)), sum_list (wrapper_cat_dims w)] (?z @ concat ?bs) =
      Inr [?z, concat ?bs]"
    using lz lb by (simp add: tensor_split_def)
  have u1: "unscale ?z (fst (means w)) (fst (stds w)) = row_continuous r"
    by (rule unscale_zscore[OF r1 m1[symmetric] nz1])
  have u2: "unscale ?c (snd (means w)) (snd (stds w)) = row_context r"
    by (rule unscale_zscore[OF r2 m2[symmetric] nz2])
  show ?thesis
  proof (cases "length (concat ?bs) > 0")
    case True
    have sp2: "tensor_split (wrapper_cat_dims w) (concat ?bs) = Inr ?bs"
      using lb split_sizes_concat[OF ml, of "[]"] by (simp add: tensor_split_def)
    from codes_roundtrip[OF r3 r4 samp] obtain codes where
      cr: "map_rows (sample_code draw) (zip ?bs (cat_labels w)) = Inr codes"
      "map2 lookup_word (int_to_words w) codes = map Some (row_categorical r)"
      unfolding cl by blast
    show ?thesis
      using True
      by (simp only: deprocess_row_def fst_conv snd_conv sp1 sum.case Let_def nth_Cons_0
            nth_Cons_Suc One_nat_def u1 u2 if_True sp2 cr)
  next
    case False
    then have e: "concat ?bs = []" by simp
    have n: "row_categorical r = []" by (rule concat_blocks_empty[OF r3 r4 e])
    have "deprocess_row w draw (?z @ concat ?bs, ?c) =
        Inr \<lparr>row_continuous = row_continuous r, row_categorical = [],
             row_context = row_context r\<rparr>"
      using False
      by (simp only: deprocess_row_def fst_conv snd_conv sp1 sum.case Let_def nth_Cons_0
            nth_Cons_Suc One_nat_def u1 u2 if_False)
    moreover have "map Some (row_categorical r) = []" using n by simp
    ultimately show ?thesis by (simp only:)
  qed
qed

lemma column_std_nonneg:
  assumes "2 \<le> length xs"
  shows "0 \<le> column_std xs"
proof -
  have "0 \<le> sum_list (map (\<lambda>x. (x - column_mean xs) ^ 2) xs)"
    by (rule sum_list_nonneg) auto
  moreover have "0 < real (length xs) - 1" using assms by simp
  ultimately show ?thesis by (simp add: column_std_def)
qed

lemma DataWrapper_init_fields:
  assumes "DataWrapper_init df0 cv catv ctxv lo hi = Inr w"
  shows "categorical_vars w = catv"
    and "fst (means w) = map (\<lambda>j. column_mean (tensor_column j (map row_continuous df0))) [0..<length cv]"
    and "snd (means w) = map (\<lambda>j. column_mean (tensor_column j (map row_context df0))) [0..<length ctxv]"
    and "fst (stds w) = map (\<lambda>j. column_std (tensor_column j (map row_continuous df0)) + 1 / 100000) [0..<length cv]"
    and "snd (stds w) = map (\<lambda>j. column_std (tensor_column j (map row_context df0)) + 1 / 100000) [0..<length ctxv]"
    and "int_to_words w = map (\<lambda>j. sort (remdups (tensor_column j (map row_categorical df0)))) [0..<length catv]"
    and "wrapper_cat_dims w = map length (int_to_words w)"
    and "cat_labels w = map (\<lambda>ls. [0..<length ls]) (int_to_words w)"
  using assms by (auto simp: DataWrapper_init_def Let_def comp_def split: if_splits)

lemma stds_nonzero:
  assumes "2 \<le> length df0"
  shows "\<forall>v\<in>set (map (\<lambda>j. column_std (tensor_column j (map f df0)) + 1 / 100000) js). v \<noteq> 0"
proof
  fix v assume "v \<in> set (map (\<lambda>j. column_std (tensor_column j (map f df0)) + 1 / 100000) js)"
  then obtain j where v: "v = column_std (tensor_column j (map f df0)) + 1 / 100000" by auto
  have "2 \<le> length (tensor_column j (map f df0))" using assms by (simp add: tensor_column_def)
  then have "0 \<le> column_std (tensor_column j (map f df0))" by (rule column_std_nonneg)
  then show "v \<noteq> 0" unfolding v by simp
qed

lemma sorted_labels_eq:
  fixes xs ys :: "('l::linorder) list"
  assumes "set xs = set ys"
  shows "sort (remdups xs) = sort (remdups ys)"
proof (rule sorted_distinct_set_unique)
  show "sorted (sort (remdups xs))" "sorted (sort (remdups ys))" by simp_all
  show "distinct (sort (remdups xs))" "distinct (sort (remdups ys))" by simp_all
  show "set (sort (remdups xs)) = set (sort (remdups ys))" using assms by simp
qed

lemma preprocess_eq:
  fixes w :: "('l::linorder) data_wrapper"
  assumes n: "length (categorical_vars w) = length (int_to_words w)"
      and conf: "\<forall>r\<in>set df. length (row_categorical r) = length (int_to_words w)"
      and voc: "\<forall>j<length (int_to_words w).
          sort (remdups (tensor_column j (map row_categorical df))) = int_to_words w ! j"
  shows "preprocess w df =
     Inr (map (\<lambda>r. zscore (row_continuous r) (fst (means w)) (fst (stds w)) @
                   concat (map2 one_hot (int_to_words w) (row_categorical r))) df,
          map (\<lambda>r. zscore (row_context r) (snd (means w)) (snd (stds w))) df)"
proof -
  let ?n = "length (int_to_words w)"
  let ?zc = "\<lambda>r. zscore (row_continuous r) (fst (means w)) (fst (stds w))"
  let ?enc = "\<lambda>r. concat (map2 one_hot (int_to_words w) (row_categorical r))"
  have blocks: "map (\<lambda>j. one_hot (sort (remdups (tensor_column j (map row_categorical df))))
                     (row_categorical r ! j)) [0..<?n] =
                map2 one_hot (int_to_words w) (row_categorical r)"
    if r: "r \<in> set df" for r
  proof (rule nth_equalityI)
    have l: "length (row_categorical r) = ?n" using conf r by blast
    show "length (map (\<lambda>j. one_hot (sort (remdups (tensor_column j (map row_categorical df))))
                     (row_categorical r ! j)) [0..<?n]) =
          length (map2 one_hot (int_to_words w) (row_categorical r))"
      using l by simp
    fix i assume "i < length (map (\<lambda>j. one_hot (sort (remdups (tensor_column j (map row_categorical df))))
                     (row_categorical r ! j)) [0..<?n])"
    then have i: "i < ?n" by simp
    then show "map (\<lambda>j. one_hot (sort (remdups (tensor_column j (map row_categorical df))))
                     (row_categorical r ! j)) [0..<?n] ! i =
          map2 one_hot (int_to_words w) (row_categorical r) ! i"
      using l voc by simp
  qed
  have gd: "get_dummies (map row_categorical df) ?n = map ?enc df"
    unfolding get_dummies_def map_map comp_def
    by (rule map_cong[OF refl]) (simp add: blocks)
  have x: "(if length (categorical_vars w) > 0
            then map2 (@) (map ?zc df) (get_dummies (map row_categorical df) (length (categorical_vars w)))
            else map ?zc df) = map (\<lambda>r. ?zc r @ ?enc r) df"
  proof (cases "length (categorical_vars w) > 0")
    case True
    then show ?thesis unfolding n gd by (simp add: map2_map_map)
  next
    case False
    then have "int_to_words w = []" using n by simp
    then show ?thesis using False by simp
  qed
  show ?thesis unfolding preprocess_def Let_def x by simp
qed

lemma first_positive_ok:
  "\<not> list_ex (\<lambda>v. v < 0) p \<and> 0 < sum_list p \<longrightarrow>
     first_positive p < length p \<and> 0 < p ! first_positive p"
proof
  assume a: "\<not> list_ex (\<lambda>v. v < 0) p \<and> 0 < sum_list p"
  have "\<not> (\<forall>v\<in>set p. v \<le> 0)"
  proof
    assume "\<forall>v\<in>set p. v \<le> 0"
    then have "sum_list p \<le> 0" by (simp add: sum_list_nonpos)
    then show False using a by simp
  qed
  then have "takeWhile (\<lambda>v. v \<le> 0) p \<noteq> p" by (simp add: takeWhile_eq_all_conv)
  then have lt: "length (takeWhile (\<lambda>v. v \<le> 0) p) < length p"
    using length_takeWhile_le[of "\<lambda>v. v \<le> 0" p]
    by (metis le_neq_implies_less takeWhile_eq_take take_all)
  from nth_length_takeWhile[OF lt] have "\<not> p ! length (takeWhile (\<lambda>v. v \<le> 0) p) \<le> 0" .
  then show "first_positive p < length p \<and> 0 < p ! first_positive p"
    using lt by (simp add: first_positive_def)
qed

text \<open>
  Claim C5, as the code has it. Let the wrapper be built from a training frame of at least
  two rows, and let a frame conform to the schema and contain, in every categorical
  column, exactly the labels that column had in the training frame. Then with
  \<^verbatim>\<open>n_features = 1\<close> and any sampler that returns an index of positive weight,
  \<^verbatim>\<open>deprocess\<close> of \<^verbatim>\<open>preprocess\<close> of the frame returns the frame: the continuous and
  context values (exactly, in real arithmetic) and the categorical labels.
\<close>

theorem deprocess_preprocess_roundtrip:
  fixes df0 df :: "('l::linorder) table_row list"
  assumes init: "DataWrapper_init df0 cv catv ctxv lo hi = Inr w"
      and two: "2 \<le> length df0"
      and conf: "\<forall>r\<in>set df. length (row_continuous r) = length cv \<and>
                   length (row_categorical r) = length catv \<and>
                   length (row_context r) = length ctxv"
      and cover: "\<forall>j<length catv. set (tensor_column j (map row_categorical df)) =
                   set (tensor_column j (map row_categorical df0))"
      and samp: "\<forall>p. \<not> list_ex (\<lambda>v. v < 0) p \<and> 0 < sum_list p \<longrightarrow>
                   draw p < length p \<and> 0 < p ! draw p"
  shows "\<exists>x c. preprocess w df = Inr (x, c) \<and>
           deprocess w draw x c =
             Inr (map (\<lambda>r. \<lparr>row_continuous = row_continuous r,
                              row_categorical = map Some (row_categorical r),
                              row_context = row_context r\<rparr>) df)"
proof -
  note F = DataWrapper_init_fields[OF init]
  let ?n = "length (int_to_words w)"
  have n: "?n = length catv" unfolding F(6) by simp
  have voc0: "int_to_words w ! j = sort (remdups (tensor_column j (map row_categorical df0)))"
    if "j < length catv" for j
    unfolding F(6) using that by simp
  have voc: "\<forall>j<?n. sort (remdups (tensor_column j (map row_categorical df))) = int_to_words w ! j"
  proof (intro allI impI)
    fix j assume "j < ?n"
    then have j: "j < length catv" using n by simp
    then have "set (tensor_column j (map row_categorical df)) =
               set (tensor_column j (map row_categorical df0))"
      using cover by blast
    then show "sort (remdups (tensor_column j (map row_categorical df))) = int_to_words w ! j"
      unfolding voc0[OF j] by (rule sorted_labels_eq)
  qed
  have confn: "\<forall>r\<in>set df. length (row_categorical r) = ?n" using conf n by simp
  have nc: "length (categorical_vars w) = ?n" unfolding F(1) n ..
  let ?fx = "\<lambda>r. zscore (row_continuous r) (fst (means w)) (fst (stds w)) @
                   concat (map2 one_hot (int_to_words w) (row_categorical r))"
  let ?fc = "\<lambda>r. zscore (row_context r) (snd (means w)) (snd (stds w))"
  let ?out = "\<lambda>r. \<lparr>row_continuous = row_continuous r,
                    row_categorical = map Some (row_categorical r),
                    row_context = row_context r\<rparr>"
  have pre: "preprocess w df = Inr (map ?fx df, map ?fc df)"
    by (rule preprocess_eq[OF nc confn voc])
  have m1: "length (fst (stds w)) = length (fst (means w))" unfolding F(2) F(4) by simp
  have m2: "length (snd (stds w)) = length (snd (means w))" unfolding F(3) F(5) by simp
  have nz1: "\<forall>v\<in>set (fst (stds w)). v \<noteq> 0" unfolding F(4) by (rule stds_nonzero[OF two])
  have nz2: "\<forall>v\<in>set (snd (stds w)). v \<noteq> 0" unfolding F(5) by (rule stds_nonzero[OF two])
  have lm1: "length (fst (means w)) = length cv" unfolding F(2) by simp
  have lm2: "length (snd (means w)) = length ctxv" unfolding F(3) by simp
  have row: "deprocess_row w draw (?fx r, ?fc r) = Inr (?out r)" if r: "r \<in> set df" for r
  proof -
    have r1: "length (row_continuous r) = length (fst (means w))" using conf r lm1 by simp
    have r2: "length (row_context r) = length (snd (means w))" using conf r lm2 by simp
    have r3: "length (row_categorical r) = ?n" using confn r by blast
    have r4: "\<forall>j<?n. row_categorical r ! j \<in> set (int_to_words w ! j)"
    proof (intro allI impI)
      fix j assume j: "j < ?n"
      then have "row_categorical r ! j \<in> set (tensor_column j (map row_categorical df))"
        using r by (auto simp: tensor_column_def)
      then have "row_categorical r ! j \<in> set (sort (remdups (tensor_column j (map row_categorical df))))"
        by simp
      then show "row_categorical r ! j \<in> set (int_to_words w ! j)" using voc j by simp
    qed
    show ?thesis
      by (rule deprocess_row_encoded[OF m1 nz1 m2 nz2 F(7) F(8) r1 r2 r3 r4 samp])
  qed
  have "deprocess w draw (map ?fx df) (map ?fc df) =
        map_rows (deprocess_row w draw) (map (\<lambda>r. (?fx r, ?fc r)) df)"
    by (simp add: deprocess_def zip_map_map_same)
  also have "\<dots> = Inr (map ?out df)"
    by (rule map_rows_map) (simp add: row)
  finally show ?thesis using pre by blast
qed

text \<open>
  For a single row of the training frame the encoding has one indicator column where the
  wrapper expects two, and decoding raises.
\<close>

theorem preprocess_single_row_counterexample:
  "DataWrapper_init training_frame [''age''] [''color''] [] Map.empty Map.empty = Inr fitted_wrapper \<and>
   preprocess fitted_wrapper [training_frame ! 0] = Inr ([[- 100000 / 100001, 1]], [[]]) \<and>
   deprocess fitted_wrapper first_positive [[- 100000 / 100001, 1]] [[]] =
     Inl (RuntimeError ''split_with_sizes'')"
  using fit_example single_row_run by (simp add: training_frame_def)

theorem deprocess_preprocess_roundtrip_witness:
  "DataWrapper_init training_frame [''age''] [''color''] [] Map.empty Map.empty = Inr fitted_wrapper \<and>
   2 \<le> length training_frame \<and>
   (\<exists>x c. preprocess fitted_wrapper (take 2 training_frame) = Inr (x, c) \<and>
      deprocess fitted_wrapper first_positive x c =
        Inr [\<lparr>row_continuous = [0], row_categorical = [Some ''red''], row_context = []\<rparr>,
             \<lparr>row_continuous = [1], row_categorical = [Some ''blue''], row_context = []\<rparr>])"
proof -
  have two: "2 \<le> length training_frame" by (simp add: training_frame_def)
  have conf: "\<forall>r\<in>set (take 2 training_frame). length (row_continuous r) = length [''age''] \<and>
                   length (row_categorical r) = length [''color''] \<and>
                   length (row_context r) = length ([] :: string list)"
    by (simp add: training_frame_def)
  have cover: "\<forall>j<length [''color'']. set (tensor_column j (map row_categorical (take 2 training_frame))) =
                   set (tensor_column j (map row_categorical training_frame))"
    by (auto simp: training_frame_def tensor_column_def)
  have samp: "\<forall>p. \<not> list_ex (\<lambda>v. v < 0) p \<and> 0 < sum_list p \<longrightarrow>
                   first_positive p < length p \<and> 0 < p ! first_positive p"
    using first_positive_ok by blast
  from deprocess_preprocess_roundtrip[OF fit_example two conf cover samp]
  show ?thesis using fit_example two by (simp add: training_frame_def)
qed

end
